theory Spec2Isabelle
  imports Main "HOL-Library.Multiset"
begin

section \<open>Data model\<close>

text \<open>
  The deployment pipeline of \<^verbatim>\<open>modules/chain/deployChain.ts\<close> (the variant with individually
  named key and address variables), of its sibling variant with a role-mapped account list,
  and of \<^verbatim>\<open>modules/chain/prepareNodeConfig.ts\<close> (\<^verbatim>\<open>generateNodeConfiguration\<close>).

  Everything the TypeScript imports from \<^verbatim>\<open>viem\<close>, \<^verbatim>\<open>@arbitrum/chain-sdk\<close>,
  \<^verbatim>\<open>inquirer\<close>, \<^verbatim>\<open>fs\<close> and the process environment is a field of the record
  \<open>env\<close> below: the code is verified for every behaviour of these collaborators. A promise
  that rejects, or a call that throws, is the value \<open>Inl e\<close>. Console output is left out.
\<close>

type_synonym address = string
type_synonym privateKey = string
type_synonym hash = string

datatype error =
    RpcError | PromptError | TransferError | DeploymentError
  | DecodingError | SyntaxError | TypeError | ConfigError | IOError

text \<open>\<^verbatim>\<open>enum NodeRole\<close> and \<^verbatim>\<open>interface NodeAccount\<close> of the role-mapped variant.\<close>

datatype NodeRole = Validator | BatchPoster

record NodeAccount =
  role :: NodeRole
  privateKey :: privateKey
  address :: address

text \<open>viem's \<^verbatim>\<open>Chain\<close>: the fields the code reads (\<^verbatim>\<open>id\<close>, \<^verbatim>\<open>rpcUrls.default.http\<close>).\<close>

record Chain =
  chain_id :: int
  rpcUrls_default_http :: "string list"

text \<open>The answers of the two prompts.\<close>

record Answers =
  ans_chainId :: int
  ans_confirm :: bool

text \<open>
  The SDK's \<^verbatim>\<open>ChainConfig\<close> document, with the fields this code sets or reads; the argument of
  \<^verbatim>\<open>prepareChainConfig\<close>; the argument of \<^verbatim>\<open>createRollupPrepareDeploymentParamsConfig\<close>; the
  rollup configuration it returns, whose \<^verbatim>\<open>chainConfig\<close> is the JSON text of the document;
  and the parameters and result of \<^verbatim>\<open>createRollup\<close>.
\<close>

record ChainConfig =
  cc_chainId :: int
  cc_InitialChainOwner :: address
  cc_DataAvailabilityCommittee :: bool

record ChainConfigParams =
  p_chainId :: int
  p_InitialChainOwner :: address
  p_DataAvailabilityCommittee :: bool

record DeploymentParams =
  d_chainId :: int
  d_owner :: address
  d_baseStake :: int
  d_chainConfig :: ChainConfig

record RollupConfig =
  rc_chainId :: int
  rc_owner :: address
  rc_baseStake :: int
  rc_chainConfig :: string
  rc_stakeToken :: address

record CreateRollupParams =
  config :: RollupConfig
  batchPosters :: "address list"
  validators :: "address list"

record CreateRollupResults =
  transaction_hash :: hash

text \<open>viem's transaction, log and receipt.\<close>

record Transaction =
  tx_hash :: hash
  tx_input :: string

record Log =
  log_address :: address
  log_topics :: "string list"
  log_data :: string

record TransactionReceipt =
  rcpt_transactionHash :: hash
  rcpt_blockNumber :: int
  rcpt_logs :: "Log list"

text \<open>The core contracts: contract role to address.\<close>

type_synonym CoreContracts = "string \<rightharpoonup> address"

text \<open>
  \<^verbatim>\<open>PrepareNodeConfigParams\<close>. The two private keys and the RPC URL are optional here because
  the code reads them from places that may hold \<^verbatim>\<open>undefined\<close> (an unset environment variable,
  the first element of an empty array) and casts.
\<close>

record PrepareNodeConfigParams =
  chainName :: string
  chainConfig :: ChainConfig
  coreContracts :: CoreContracts
  batchPosterPrivateKey :: "privateKey option"
  validatorPrivateKey :: "privateKey option"
  stakeToken :: address
  parentChainId :: int
  parentChainRpcUrl :: "string option"

text \<open>\<^verbatim>\<open>GenerateNodeConfigurationResult\<close>; \<open>'nc\<close> is the SDK's \<^verbatim>\<open>NodeConfig\<close>.\<close>

record 'nc GenerateNodeConfigurationResult =
  res_nodeConfig :: 'nc
  res_chainConfig :: ChainConfig

text \<open>
  The effects of a run on the outside world, in the order they are issued, each with the
  outcome the collaborator gave: a native-token transfer (sender, recipient, value), the
  submission of the rollup-creation transaction (parameters, signer) and a file write
  (path, content).
\<close>

datatype event =
    Transfer address address int "error + hash"
  | RollupCreation CreateRollupParams address "error + CreateRollupResults"
  | FileWrite string string "error + unit"

text \<open>
  The collaborators. Those that talk to the base chain or the file system get the events
  issued so far, so that their answer may depend on them.
  \<^item> \<open>deployer\<close>: the address of \<^verbatim>\<open>runtimeAccount.deployer\<close>;
  \<^item> \<open>getBalance\<close>, \<open>getTransaction\<close>, \<open>getTransactionReceipt\<close>: the public client;
  \<^item> \<open>generateChainId\<close>, \<open>prompt\<close>: the suggested chain id and \<^verbatim>\<open>inquirer.prompt\<close>, given
    the suggestion;
  \<^item> \<open>generatePrivateKey\<close>: the key returned by the \<open>n\<close>-th call of \<^verbatim>\<open>generatePrivateKey()\<close>;
  \<^item> \<open>privateKeyToAddress\<close>: \<^verbatim>\<open>privateKeyToAccount(sanitizePrivateKey(k)).address\<close>;
  \<^item> \<open>sendTransaction\<close>: the wallet client's \<^verbatim>\<open>sendTransaction\<close> (sender, recipient, value);
  \<^item> \<open>prepareChainConfig\<close>, \<open>createRollupPrepareDeploymentParamsConfig\<close>, \<open>createRollup\<close>
    (parameters, signer): the SDK's deployment side;
  \<^item> \<open>getInputs\<close>: \<^verbatim>\<open>createRollupPrepareTransaction(tx).getInputs()\<close>;
  \<^item> \<open>getCoreContracts\<close>: \<^verbatim>\<open>createRollupPrepareTransactionReceipt(r).getCoreContracts()\<close>;
  \<^item> \<open>JSON_parse\<close>, \<open>JSON_stringify\<close>: \<^verbatim>\<open>JSON.parse\<close> at the chain configuration,
    \<^verbatim>\<open>JSON.stringify(_, null, 2)\<close> at the node configuration;
  \<^item> \<open>prepareNodeConfig\<close>, \<open>writeFile\<close> (path, content);
  \<^item> \<open>env_BATCH_POSTER_PRIVATE_KEY\<close>, \<open>env_VALIDATOR_PRIVATE_KEY\<close>: the two
    \<^verbatim>\<open>process.env\<close> entries, \<open>None\<close> when unset.
\<close>

record 'nc env =
  deployer :: address
  getBalance :: "event list \<Rightarrow> address \<Rightarrow> error + int"
  generateChainId :: int
  prompt :: "int \<Rightarrow> error + Answers"
  generatePrivateKey :: "nat \<Rightarrow> privateKey"
  privateKeyToAddress :: "privateKey \<Rightarrow> address"
  sendTransaction :: "event list \<Rightarrow> address \<Rightarrow> address \<Rightarrow> int \<Rightarrow> error + hash"
  prepareChainConfig :: "ChainConfigParams \<Rightarrow> ChainConfig"
  createRollupPrepareDeploymentParamsConfig :: "DeploymentParams \<Rightarrow> RollupConfig"
  createRollup :: "event list \<Rightarrow> CreateRollupParams \<Rightarrow> address \<Rightarrow> error + CreateRollupResults"
  getTransaction :: "event list \<Rightarrow> hash \<Rightarrow> error + Transaction"
  getTransactionReceipt :: "event list \<Rightarrow> hash \<Rightarrow> error + TransactionReceipt"
  getInputs :: "Transaction \<Rightarrow> error + CreateRollupParams list"
  getCoreContracts :: "TransactionReceipt \<Rightarrow> error + CoreContracts"
  JSON_parse :: "string \<Rightarrow> error + ChainConfig"
  prepareNodeConfig :: "PrepareNodeConfigParams \<Rightarrow> error + 'nc"
  JSON_stringify :: "'nc \<Rightarrow> string"
  writeFile :: "event list \<Rightarrow> string \<Rightarrow> string \<Rightarrow> error + unit"
  env_BATCH_POSTER_PRIVATE_KEY :: "privateKey option"
  env_VALIDATOR_PRIVATE_KEY :: "privateKey option"

text \<open>The state of a run: the events issued and the number of keys drawn so far.\<close>

record state =
  trace :: "event list"
  keysDrawn :: nat

text \<open>The transfers among the events of a trace: sender, recipient and value of each.\<close>

fun transfersOf :: "event list \<Rightarrow> (address \<times> address \<times> int) list" where
  "transfersOf [] = []"
| "transfersOf (Transfer sender recipient v outcome # t) = (sender, recipient, v) # transfersOf t"
| "transfersOf (e # t) = transfersOf t"

section \<open>Constants\<close>

text \<open>
  \<^verbatim>\<open>parseEther\<close> gives a decimal amount of ether in wei, that is times \<open>10 ^ 18\<close>:
  \<^verbatim>\<open>parseEther('0.00001')\<close> and \<^verbatim>\<open>parseEther('0.001')\<close>.
\<close>

definition BASE_STAKE :: int where
  "BASE_STAKE = 10 ^ 13"

definition TEST_TOKENS_AMOUNT :: int where
  "TEST_TOKENS_AMOUNT = 10 ^ 15"

definition TOKEN_NEEDS_FOR_DEPLOY :: int where
  "TOKEN_NEEDS_FOR_DEPLOY = BASE_STAKE + TEST_TOKENS_AMOUNT * 4"

text \<open>The role list of the role-mapped variant.\<close>

definition roles :: "NodeRole list" where
  "roles = [Validator, Validator, BatchPoster]"

section \<open>Operations shared by both variants\<close>

text \<open>One call of \<^verbatim>\<open>generatePrivateKey()\<close>.\<close>

definition drawKey :: "'nc env \<Rightarrow> state \<Rightarrow> privateKey \<times> state" where
  "drawKey env s =
     (generatePrivateKey env (keysDrawn s), s\<lparr>keysDrawn := Suc (keysDrawn s)\<rparr>)"

text \<open>\<^verbatim>\<open>sendTestTokens\<close>: one transfer of \<open>TEST_TOKENS_AMOUNT\<close>, awaited.\<close>

definition sendTestTokens ::
  "'nc env \<Rightarrow> address \<Rightarrow> address \<Rightarrow> state \<Rightarrow> (error + hash) \<times> state" where
  "sendTestTokens env sender toAddress s =
     (let amount = TEST_TOKENS_AMOUNT;
          tx = sendTransaction env (trace s) sender toAddress amount
      in (tx, s\<lparr>trace := trace s @ [Transfer sender toAddress amount tx]\<rparr>))"

text \<open>
  \<^verbatim>\<open>deployRollupContracts\<close>. The \<^verbatim>\<open>catch\<close> block prints the error and throws it again.
\<close>

definition createRollupConfig :: "'nc env \<Rightarrow> address \<Rightarrow> int \<Rightarrow> RollupConfig" where
  "createRollupConfig env dpl chainId =
     createRollupPrepareDeploymentParamsConfig env
       \<lparr>d_chainId = chainId, d_owner = dpl, d_baseStake = BASE_STAKE,
        d_chainConfig = prepareChainConfig env
          \<lparr>p_chainId = chainId, p_InitialChainOwner = dpl,
           p_DataAvailabilityCommittee = True\<rparr>\<rparr>"

definition deployRollupContracts ::
  "'nc env \<Rightarrow> address \<Rightarrow> address list \<Rightarrow> address \<Rightarrow> int \<Rightarrow> state
     \<Rightarrow> (error + CreateRollupResults) \<times> state" where
  "deployRollupContracts env dpl validatorAddresses batchPosterAddress chainId s =
     (let params = \<lparr>config = createRollupConfig env dpl chainId,
                    batchPosters = [batchPosterAddress],
                    validators = validatorAddresses\<rparr>;
          r = createRollup env (trace s) params dpl
      in (r, s\<lparr>trace := trace s @ [RollupCreation params dpl r]\<rparr>))"

text \<open>\<^verbatim>\<open>getRpcUrl\<close>: the first default HTTP URL, \<^verbatim>\<open>undefined\<close> when there is none.\<close>

definition getRpcUrl :: "Chain \<Rightarrow> string option" where
  "getRpcUrl chain = (case rpcUrls_default_http chain of [] \<Rightarrow> None | u # _ \<Rightarrow> Some u)"

text \<open>The object literal \<^verbatim>\<open>nodeConfigParameters\<close> of \<^verbatim>\<open>generateNodeConfiguration\<close>.\<close>

definition nodeConfigParameters ::
  "'nc env \<Rightarrow> ChainConfig \<Rightarrow> CoreContracts \<Rightarrow> RollupConfig \<Rightarrow> Chain
     \<Rightarrow> PrepareNodeConfigParams" where
  "nodeConfigParameters env cc core txConfig parentChain =
     \<lparr>chainName = ''My Orbit Chain'',
      chainConfig = cc,
      coreContracts = core,
      batchPosterPrivateKey = env_BATCH_POSTER_PRIVATE_KEY env,
      validatorPrivateKey = env_VALIDATOR_PRIVATE_KEY env,
      stakeToken = rc_stakeToken txConfig,
      parentChainId = chain_id parentChain,
      parentChainRpcUrl = getRpcUrl parentChain\<rparr>"

text \<open>
  \<^verbatim>\<open>generateNodeConfiguration\<close>. It only reads: the transaction, then the receipt, are
  fetched; the inputs are decoded and the first one taken (\<^verbatim>\<open>getInputs()[0].config\<close> throws a
  TypeError when there is none); its \<^verbatim>\<open>chainConfig\<close> text is parsed; the core contracts are
  decoded from the receipt; the node configuration is prepared. Nothing is caught.
\<close>

definition generateNodeConfiguration ::
  "'nc env \<Rightarrow> hash \<Rightarrow> Chain \<Rightarrow> event list
     \<Rightarrow> error + 'nc GenerateNodeConfigurationResult" where
  "generateNodeConfiguration env txHash parentChain t =
     (case getTransaction env t txHash of
        Inl e \<Rightarrow> Inl e
      | Inr tx \<Rightarrow>
     (case getTransactionReceipt env t txHash of
        Inl e \<Rightarrow> Inl e
      | Inr txReceipt \<Rightarrow>
     (case getInputs env tx of
        Inl e \<Rightarrow> Inl e
      | Inr [] \<Rightarrow> Inl TypeError
      | Inr (input0 # _) \<Rightarrow>
     (let txConfig = config input0 in
     (case JSON_parse env (rc_chainConfig txConfig) of
        Inl e \<Rightarrow> Inl e
      | Inr cc \<Rightarrow>
     (case getCoreContracts env txReceipt of
        Inl e \<Rightarrow> Inl e
      | Inr core \<Rightarrow>
     (case prepareNodeConfig env (nodeConfigParameters env cc core txConfig parentChain) of
        Inl e \<Rightarrow> Inl e
      | Inr nc \<Rightarrow> Inr \<lparr>res_nodeConfig = nc, res_chainConfig = cc\<rparr>)))))))"

text \<open>
  Step 4 of the loop, the same in both variants: derive the node configuration and write
  it to \<^verbatim>\<open>node-config.json\<close>.
\<close>

definition writeNodeConfig ::
  "'nc env \<Rightarrow> hash \<Rightarrow> Chain \<Rightarrow> state
     \<Rightarrow> (error + 'nc GenerateNodeConfigurationResult) \<times> state" where
  "writeNodeConfig env deployRollupHash parentChain s =
     (case generateNodeConfiguration env deployRollupHash parentChain (trace s) of
        Inl e \<Rightarrow> (Inl e, s)
      | Inr nodeConfigResult \<Rightarrow>
          (let content = JSON_stringify env (res_nodeConfig nodeConfigResult);
               w = writeFile env (trace s) ''node-config.json'' content;
               s' = s\<lparr>trace := trace s @ [FileWrite ''node-config.json'' content w]\<rparr>
           in case w of
                Inl e \<Rightarrow> (Inl e, s')
              | Inr _ \<Rightarrow> (Inr nodeConfigResult, s')))"

text \<open>
  The part of \<^verbatim>\<open>deployChain\<close> before the loop, the same in both variants: the balance check,
  the prompt and the confirmation. \<open>Inr None\<close> is the \<^verbatim>\<open>return null\<close>, \<open>Inr (Some c)\<close> hands
  the chain id \<open>c\<close> to the loop.
\<close>

definition preflight :: "'nc env \<Rightarrow> state \<Rightarrow> error + int option" where
  "preflight env s =
     (case getBalance env (trace s) (deployer env) of
        Inl e \<Rightarrow> Inl e
      | Inr balance \<Rightarrow>
          if balance < TOKEN_NEEDS_FOR_DEPLOY then Inr None
          else (case prompt env (generateChainId env) of
                  Inl e \<Rightarrow> Inl e
                | Inr answers \<Rightarrow>
                    if \<not> ans_confirm answers then Inr None
                    else Inr (Some (ans_chainId answers))))"

section \<open>The variant with named variables\<close>

text \<open>
  The loop runs its four cases in order. Case 0 draws three keys and then derives the three
  addresses; case 1 sends the test tokens to validator 1, validator 2 and the batch poster;
  case 2 deploys; case 3 is \<open>writeNodeConfig\<close>. A rejected promise leaves the function at
  once.
\<close>

definition deploySteps ::
  "'nc env \<Rightarrow> Chain \<Rightarrow> int \<Rightarrow> state
     \<Rightarrow> (error + 'nc GenerateNodeConfigurationResult) \<times> state" where
  "deploySteps env parentChain chainId s =
     (let (validatorKeys1, s1) = drawKey env s;
          (validatorKeys2, s2) = drawKey env s1;
          (batchPosterKeys, s3) = drawKey env s2;
          validator1Address = privateKeyToAddress env validatorKeys1;
          validator2Address = privateKeyToAddress env validatorKeys2;
          batchPosterAddress = privateKeyToAddress env batchPosterKeys
      in case sendTestTokens env (deployer env) validator1Address s3 of
           (Inl e, s4) \<Rightarrow> (Inl e, s4)
         | (Inr _, s4) \<Rightarrow>
        (case sendTestTokens env (deployer env) validator2Address s4 of
           (Inl e, s5) \<Rightarrow> (Inl e, s5)
         | (Inr _, s5) \<Rightarrow>
        (case sendTestTokens env (deployer env) batchPosterAddress s5 of
           (Inl e, s6) \<Rightarrow> (Inl e, s6)
         | (Inr _, s6) \<Rightarrow>
        (case deployRollupContracts env (deployer env)
                [validator1Address, validator2Address] batchPosterAddress chainId s6 of
           (Inl e, s7) \<Rightarrow> (Inl e, s7)
         | (Inr deployRollupResult, s7) \<Rightarrow>
             writeNodeConfig env (transaction_hash deployRollupResult) parentChain s7))))"

definition deployChain ::
  "'nc env \<Rightarrow> Chain \<Rightarrow> state \<Rightarrow> (error + ChainConfig option) \<times> state" where
  "deployChain env parentChain s =
     (case preflight env s of
        Inl e \<Rightarrow> (Inl e, s)
      | Inr None \<Rightarrow> (Inr None, s)
      | Inr (Some chainId) \<Rightarrow>
          (case deploySteps env parentChain chainId s of
             (Inl e, s') \<Rightarrow> (Inl e, s')
           | (Inr nodeConfigResult, s') \<Rightarrow>
               (Inr (Some (res_chainConfig nodeConfigResult)), s')))"

section \<open>The variant with a role-mapped account list\<close>

text \<open>Case 0: \<^verbatim>\<open>roles.map\<close>, one key drawn and one address derived per role, in order.\<close>

fun provisionAccounts :: "'nc env \<Rightarrow> NodeRole list \<Rightarrow> state \<Rightarrow> NodeAccount list \<times> state" where
  "provisionAccounts env [] s = ([], s)"
| "provisionAccounts env (r # rs) s =
     (let (k, s1) = drawKey env s;
          a = privateKeyToAddress env k;
          (accounts, s2) = provisionAccounts env rs s1
      in (\<lparr>role = r, privateKey = k, address = a\<rparr> # accounts, s2))"

text \<open>Case 1: the \<^verbatim>\<open>for ... of\<close> loop over the accounts, each transfer awaited.\<close>

fun fundAccounts ::
  "'nc env \<Rightarrow> address \<Rightarrow> NodeAccount list \<Rightarrow> state \<Rightarrow> (error + unit) \<times> state" where
  "fundAccounts env sender [] s = (Inr (), s)"
| "fundAccounts env sender (account # rest) s =
     (case sendTestTokens env sender (address account) s of
        (Inl e, s1) \<Rightarrow> (Inl e, s1)
      | (Inr _, s1) \<Rightarrow> fundAccounts env sender rest s1)"

text \<open>
  Case 2: the validators are the accounts with the validator role, the batch poster is the
  first account with that role (\<^verbatim>\<open>find(...)!.address\<close> throws a TypeError when there is none).
\<close>

definition deployWithAccounts ::
  "'nc env \<Rightarrow> NodeAccount list \<Rightarrow> int \<Rightarrow> state
     \<Rightarrow> (error + CreateRollupResults) \<times> state" where
  "deployWithAccounts env nodeAccounts chainId s =
     (let validatorAddresses =
            map address (filter (\<lambda>account. role account = Validator) nodeAccounts)
      in case find (\<lambda>account. role account = BatchPoster) nodeAccounts of
           None \<Rightarrow> (Inl TypeError, s)
         | Some bp \<Rightarrow>
             deployRollupContracts env (deployer env) validatorAddresses (address bp)
               chainId s)"

definition deploySteps_accounts ::
  "'nc env \<Rightarrow> Chain \<Rightarrow> int \<Rightarrow> state
     \<Rightarrow> (error + 'nc GenerateNodeConfigurationResult) \<times> state" where
  "deploySteps_accounts env parentChain chainId s =
     (let (nodeAccounts, s3) = provisionAccounts env roles s
      in case fundAccounts env (deployer env) nodeAccounts s3 of
           (Inl e, s6) \<Rightarrow> (Inl e, s6)
         | (Inr _, s6) \<Rightarrow>
        (case deployWithAccounts env nodeAccounts chainId s6 of
           (Inl e, s7) \<Rightarrow> (Inl e, s7)
         | (Inr deployRollupResult, s7) \<Rightarrow>
             writeNodeConfig env (transaction_hash deployRollupResult) parentChain s7))"

definition deployChain_accounts ::
  "'nc env \<Rightarrow> Chain \<Rightarrow> state \<Rightarrow> (error + ChainConfig option) \<times> state" where
  "deployChain_accounts env parentChain s =
     (case preflight env s of
        Inl e \<Rightarrow> (Inl e, s)
      | Inr None \<Rightarrow> (Inr None, s)
      | Inr (Some chainId) \<Rightarrow>
          (case deploySteps_accounts env parentChain chainId s of
             (Inl e, s') \<Rightarrow> (Inl e, s')
           | (Inr nodeConfigResult, s') \<Rightarrow>
               (Inr (Some (res_chainConfig nodeConfigResult)), s')))"

section \<open>The receipt decoder as the specification describes it\<close>

text \<open>
  Modelled from the spec: the decoder behind \<^verbatim>\<open>getCoreContracts()\<close> belongs to the rollup SDK
  and is not part of these sources, which only call it. The specification says of it that
  the receipt's emitted event logs are decoded to recover the addresses of the core contracts
  the factory instantiated, as a mapping of contract role to address, that the set recovered
  is complete and correctly labelled, and that a log shape outside the expected layout is a
  decoding error. Here \<open>decodeLog\<close> reads one log as a core-contract-deployed event (role and
  address) or as no such event, \<open>expected\<close> lists the roles of the layout, and the
  extraction fails unless every expected role is found.
\<close>

definition coreContractEvents ::
  "(Log \<Rightarrow> (string \<times> address) option) \<Rightarrow> TransactionReceipt \<Rightarrow> (string \<times> address) list" where
  "coreContractEvents decodeLog txReceipt = List.map_filter decodeLog (rcpt_logs txReceipt)"

text \<open>
  Modelled from the spec: the extraction itself, absent from these sources like the decoder
  it belongs to. The events found are turned into the mapping of contract role to address;
  a receipt in which an expected role is missing does not match the layout and is a
  decoding error.
\<close>

definition getCoreContracts_spec ::
  "(Log \<Rightarrow> (string \<times> address) option) \<Rightarrow> string list \<Rightarrow> TransactionReceipt
     \<Rightarrow> error + CoreContracts" where
  "getCoreContracts_spec decodeLog expected txReceipt =
     (let found = coreContractEvents decodeLog txReceipt
      in if list_all (\<lambda>r. r \<in> set (map fst found)) expected
         then Inr (map_of found)
         else Inl DecodingError)"

text \<open>
  Modelled from the spec: the valid receipts of the order-independence property, of which
  the sources say nothing. A receipt is valid when no role is deployed by two events and
  every expected role is deployed.
\<close>

definition validReceipt ::
  "(Log \<Rightarrow> (string \<times> address) option) \<Rightarrow> string list \<Rightarrow> TransactionReceipt \<Rightarrow> bool" where
  "validReceipt decodeLog expected txReceipt =
     (let found = coreContractEvents decodeLog txReceipt
      in distinct (map fst found) \<and> list_all (\<lambda>r. r \<in> set (map fst found)) expected)"

section \<open>A concrete world\<close>

text \<open>
  A fixture on which the theorems below are instantiated: a deployer
  \<^verbatim>\<open>0xdeployer\<close> whose balance is \<open>balance\<close>, an operator who confirms chain id 412346,
  three distinct keys, a base chain on which the transfer number \<open>n\<close> (counted by the
  events issued before it) is rejected when \<open>rejects n\<close>, and which answers for the hash
  \<^verbatim>\<open>0xrollup\<close> with the rollup-creation transaction and its receipt.
\<close>

definition fx_chainConfigText :: string where
  \<open>fx_chainConfigText =
     ''{"chainId":412346,"arbitrum":{"InitialChainOwner":"0xdeployer","DataAvailabilityCommittee":true}}''\<close>

definition fx_prepareChainConfig :: "ChainConfigParams \<Rightarrow> ChainConfig" where
  "fx_prepareChainConfig p =
     \<lparr>cc_chainId = p_chainId p, cc_InitialChainOwner = p_InitialChainOwner p,
      cc_DataAvailabilityCommittee = p_DataAvailabilityCommittee p\<rparr>"

definition fx_deploymentParamsConfig :: "DeploymentParams \<Rightarrow> RollupConfig" where
  "fx_deploymentParamsConfig dp =
     \<lparr>rc_chainId = d_chainId dp, rc_owner = d_owner dp, rc_baseStake = d_baseStake dp,
      rc_chainConfig = fx_chainConfigText, rc_stakeToken = ''0x0''\<rparr>"

definition fx_JSON_parse :: "string \<Rightarrow> error + ChainConfig" where
  "fx_JSON_parse txt =
     (if txt = fx_chainConfigText
      then Inr \<lparr>cc_chainId = 412346, cc_InitialChainOwner = ''0xdeployer'',
                cc_DataAvailabilityCommittee = True\<rparr>
      else Inl SyntaxError)"

definition fx_params :: CreateRollupParams where
  "fx_params =
     \<lparr>config = fx_deploymentParamsConfig
        \<lparr>d_chainId = 412346, d_owner = ''0xdeployer'', d_baseStake = BASE_STAKE,
         d_chainConfig = fx_prepareChainConfig
           \<lparr>p_chainId = 412346, p_InitialChainOwner = ''0xdeployer'',
            p_DataAvailabilityCommittee = True\<rparr>\<rparr>,
      batchPosters = [''A:k2''],
      validators = [''A:k0'', ''A:k1'']\<rparr>"

definition fx_decodeLog :: "Log \<Rightarrow> (string \<times> address) option" where
  "fx_decodeLog l =
     (case log_topics l of
        [t] \<Rightarrow> if t = ''CoreContractDeployed'' then Some (log_data l, log_address l) else None
      | _ \<Rightarrow> None)"

definition fx_expected :: "string list" where
  "fx_expected = [''rollup'', ''inbox'']"

definition fx_logs :: "Log list" where
  "fx_logs =
     [\<lparr>log_address = ''0xfactory'', log_topics = [''Other'', ''x''], log_data = ''0x''\<rparr>,
      \<lparr>log_address = ''0xR'', log_topics = [''CoreContractDeployed''], log_data = ''rollup''\<rparr>,
      \<lparr>log_address = ''0xI'', log_topics = [''CoreContractDeployed''], log_data = ''inbox''\<rparr>]"

definition fx_receipt :: TransactionReceipt where
  "fx_receipt =
     \<lparr>rcpt_transactionHash = ''0xrollup'', rcpt_blockNumber = 7, rcpt_logs = fx_logs\<rparr>"

definition fx_coreContracts :: CoreContracts where
  "fx_coreContracts = map_of [(''rollup'', ''0xR''), (''inbox'', ''0xI'')]"

definition fx_show_key :: "privateKey option \<Rightarrow> string" where
  "fx_show_key k = (case k of None \<Rightarrow> ''undefined'' | Some x \<Rightarrow> x)"

definition fixture :: "int \<Rightarrow> (nat \<Rightarrow> bool) \<Rightarrow> PrepareNodeConfigParams env" where
  "fixture balance rejects =
     \<lparr>deployer = ''0xdeployer'',
      getBalance = (\<lambda>t a. Inr balance),
      generateChainId = 99,
      prompt = (\<lambda>suggested. Inr \<lparr>ans_chainId = 412346, ans_confirm = True\<rparr>),
      generatePrivateKey = (\<lambda>n. if n = 0 then ''k0'' else if n = 1 then ''k1'' else ''k2''),
      privateKeyToAddress = (\<lambda>k. ''A:'' @ k),
      sendTransaction =
        (\<lambda>t sender recipient v. if rejects (length t) then Inl TransferError else Inr ''0xt''),
      prepareChainConfig = fx_prepareChainConfig,
      createRollupPrepareDeploymentParamsConfig = fx_deploymentParamsConfig,
      createRollup = (\<lambda>t p signer. Inr \<lparr>transaction_hash = ''0xrollup''\<rparr>),
      getTransaction =
        (\<lambda>t h. if h = ''0xrollup'' then Inr \<lparr>tx_hash = h, tx_input = ''0xcalldata''\<rparr>
               else Inl RpcError),
      getTransactionReceipt =
        (\<lambda>t h. if h = ''0xrollup'' then Inr fx_receipt else Inl RpcError),
      getInputs =
        (\<lambda>tx. if tx_input tx = ''0xcalldata'' then Inr [fx_params] else Inl DecodingError),
      getCoreContracts =
        (\<lambda>r. if rcpt_logs r = [] then Inl DecodingError else Inr fx_coreContracts),
      JSON_parse = fx_JSON_parse,
      prepareNodeConfig = (\<lambda>p. Inr p),
      JSON_stringify =
        (\<lambda>p. ''batchPoster='' @ fx_show_key (batchPosterPrivateKey p)
               @ '' validator='' @ fx_show_key (validatorPrivateKey p)),
      writeFile = (\<lambda>t path content. Inr ()),
      env_BATCH_POSTER_PRIVATE_KEY = Some ''envBP'',
      env_VALIDATOR_PRIVATE_KEY = Some ''envVAL''\<rparr>"

definition fx_chain :: Chain where
  "fx_chain = \<lparr>chain_id = 421614, rpcUrls_default_http = [''https://rpc.example'']\<rparr>"

definition fx_init :: state where
  "fx_init = \<lparr>trace = [], keysDrawn = 0\<rparr>"

section \<open>Facts about the concrete world\<close>

lemma fixture_sel:
  "deployer (fixture b rj) = ''0xdeployer''"
  "getBalance (fixture b rj) t a = Inr b"
  "generateChainId (fixture b rj) = 99"
  "prompt (fixture b rj) c = Inr \<lparr>ans_chainId = 412346, ans_confirm = True\<rparr>"
  "generatePrivateKey (fixture b rj) n = (if n = 0 then ''k0'' else if n = 1 then ''k1'' else ''k2'')"
  "privateKeyToAddress (fixture b rj) k = ''A:'' @ k"
  "sendTransaction (fixture b rj) t sender recipient v =
     (if rj (length t) then Inl TransferError else Inr ''0xt'')"
  "prepareChainConfig (fixture b rj) = fx_prepareChainConfig"
  "createRollupPrepareDeploymentParamsConfig (fixture b rj) = fx_deploymentParamsConfig"
  "createRollup (fixture b rj) t p signer = Inr \<lparr>transaction_hash = ''0xrollup''\<rparr>"
  "getTransaction (fixture b rj) t h =
     (if h = ''0xrollup'' then Inr \<lparr>tx_hash = h, tx_input = ''0xcalldata''\<rparr> else Inl RpcError)"
  "getTransactionReceipt (fixture b rj) t h =
     (if h = ''0xrollup'' then Inr fx_receipt else Inl RpcError)"
  "getInputs (fixture b rj) tx =
     (if tx_input tx = ''0xcalldata'' then Inr [fx_params] else Inl DecodingError)"
  "getCoreContracts (fixture b rj) r =
     (if rcpt_logs r = [] then Inl DecodingError else Inr fx_coreContracts)"
  "JSON_parse (fixture b rj) = fx_JSON_parse"
  "prepareNodeConfig (fixture b rj) np = Inr np"
  "JSON_stringify (fixture b rj) np =
     ''batchPoster='' @ fx_show_key (batchPosterPrivateKey np)
       @ '' validator='' @ fx_show_key (validatorPrivateKey np)"
  "writeFile (fixture b rj) t path content = Inr ()"
  "env_BATCH_POSTER_PRIVATE_KEY (fixture b rj) = Some ''envBP''"
  "env_VALIDATOR_PRIVATE_KEY (fixture b rj) = Some ''envVAL''"
  by (simp_all add: fixture_def)

section \<open>The balance check\<close>

text \<open>
  C1. When the balance check returns a balance below the threshold
  \<open>TOKEN_NEEDS_FOR_DEPLOY\<close>, \<open>deployChain\<close> returns \<^verbatim>\<open>null\<close> at once and the state of
  the run is the one it started from: no transfer, no deployment transaction and no file
  write has been issued, and no key has been drawn.
\<close>

theorem insufficient_balance_aborts:
  assumes "getBalance env (trace s) (deployer env) = Inr balance"
      and "balance < TOKEN_NEEDS_FOR_DEPLOY"
  shows "deployChain env parentChain s = (Inr None, s)"
  using assms by (simp add: deployChain_def preflight_def)

theorem insufficient_balance_aborts_witness:
  "getBalance (fixture 0 (\<lambda>n. False)) (trace fx_init) (deployer (fixture 0 (\<lambda>n. False))) = Inr 0
   \<and> 0 < TOKEN_NEEDS_FOR_DEPLOY
   \<and> deployChain (fixture 0 (\<lambda>n. False)) fx_chain fx_init = (Inr None, fx_init)"
proof -
  have b: "getBalance (fixture 0 (\<lambda>n. False)) (trace fx_init) (deployer (fixture 0 (\<lambda>n. False)))
             = Inr 0"
    by (simp add: fixture_def)
  have lt: "0 < TOKEN_NEEDS_FOR_DEPLOY"
    by (simp add: TOKEN_NEEDS_FOR_DEPLOY_def BASE_STAKE_def TEST_TOKENS_AMOUNT_def)
  from insufficient_balance_aborts [OF b lt] b lt show ?thesis
    by blast
qed

section \<open>The two variants agree\<close>

lemma deploySteps_accounts_eq:
  "deploySteps_accounts env parentChain chainId s = deploySteps env parentChain chainId s"
  by (simp add: deploySteps_accounts_def deploySteps_def roles_def deployWithAccounts_def
        Let_def split: prod.splits sum.splits)

text \<open>
  C10. For the same collaborators, parent chain and starting state, the variant with the
  role-mapped account list and the variant with named variables return the same result
  and leave the same state: the same keys drawn, the same events (transfers, deployment
  parameters with the same validators and batch poster, file write) in the same order.
\<close>

theorem deployChain_variants_agree:
  "deployChain_accounts env parentChain s = deployChain env parentChain s"
  by (simp add: deployChain_accounts_def deployChain_def deploySteps_accounts_eq
        split: sum.splits option.splits)

section \<open>Provisioning\<close>

lemma provisionAccounts_roles:
  "provisionAccounts env roles s =
     ([\<lparr>role = Validator, privateKey = generatePrivateKey env (keysDrawn s),
        address = privateKeyToAddress env (generatePrivateKey env (keysDrawn s))\<rparr>,
       \<lparr>role = Validator, privateKey = generatePrivateKey env (keysDrawn s + 1),
        address = privateKeyToAddress env (generatePrivateKey env (keysDrawn s + 1))\<rparr>,
       \<lparr>role = BatchPoster, privateKey = generatePrivateKey env (keysDrawn s + 2),
        address = privateKeyToAddress env (generatePrivateKey env (keysDrawn s + 2))\<rparr>],
      s\<lparr>keysDrawn := keysDrawn s + 3\<rparr>)"
  by (simp add: roles_def drawKey_def)

lemma less_3_cases: "(i::nat) < 3 \<longleftrightarrow> i = 0 \<or> i = 1 \<or> i = 2"
  by arith

text \<open>
  C3. For the role list (Validator, Validator, BatchPoster) the provisioning step returns
  exactly three accounts, one per role in the order of the list; the key of account \<open>i\<close>
  is the result of its own call of the key generator (the calls number \<open>n\<close>, \<open>n + 1\<close>,
  \<open>n + 2\<close> when \<open>n\<close> keys were drawn before), its address is derived from that key, and
  no event is issued. Under the key generator's contract, that the three calls return
  three different keys and that different generated keys have different addresses, the
  three keys and the three addresses are pairwise distinct.
\<close>

theorem provisioning_three_accounts:
  assumes "provisionAccounts env roles s = (accounts, s')"
  shows "length accounts = 3 \<and> map role accounts = roles
     \<and> (\<forall>i<3. privateKey (accounts ! i) = generatePrivateKey env (keysDrawn s + i))
     \<and> (\<forall>i<3. address (accounts ! i) = privateKeyToAddress env (privateKey (accounts ! i)))
     \<and> keysDrawn s' = keysDrawn s + 3 \<and> trace s' = trace s
     \<and> (inj_on (generatePrivateKey env) {keysDrawn s ..< keysDrawn s + 3}
          \<and> inj_on (privateKeyToAddress env)
                (generatePrivateKey env ` {keysDrawn s ..< keysDrawn s + 3})
        \<longrightarrow> distinct (map privateKey accounts) \<and> distinct (map address accounts))"
proof -
  let ?n = "keysDrawn s"
  let ?g = "generatePrivateKey env"
  let ?A = "privateKeyToAddress env"
  from assms have acc: "accounts = fst (provisionAccounts env roles s)"
    and st: "s' = snd (provisionAccounts env roles s)" by simp_all
  have r: "length accounts = 3 \<and> map role accounts = roles
     \<and> (\<forall>i<3. privateKey (accounts ! i) = generatePrivateKey env (keysDrawn s + i))
     \<and> (\<forall>i<3. address (accounts ! i) = privateKeyToAddress env (privateKey (accounts ! i)))
     \<and> keysDrawn s' = keysDrawn s + 3 \<and> trace s' = trace s"
    unfolding acc st provisionAccounts_roles by (simp add: roles_def less_3_cases)
  have ks: "map privateKey accounts = map ?g [?n ..< ?n + 3]"
    unfolding acc provisionAccounts_roles
    by (simp add: upt_rec [of ?n] upt_rec [of "Suc ?n"] upt_rec [of "Suc (Suc ?n)"])
  have as: "map address accounts = map ?A (map privateKey accounts)"
    unfolding acc provisionAccounts_roles by simp
  have d: "distinct (map privateKey accounts) \<and> distinct (map address accounts)"
    if k: "inj_on ?g {?n ..< ?n + 3}" and a: "inj_on ?A (?g ` {?n ..< ?n + 3})"
  proof -
    from k have dk: "distinct (map privateKey accounts)"
      unfolding ks by (simp add: distinct_map)
    have "set (map privateKey accounts) = ?g ` {?n ..< ?n + 3}"
      unfolding ks by simp
    with a dk have "distinct (map ?A (map privateKey accounts))"
      by (simp only: distinct_map)
    with dk show ?thesis by (simp only: as simp_thms)
  qed
  from r d show ?thesis by blast
qed

theorem provisioning_three_accounts_witness:
  "provisionAccounts (fixture 0 (\<lambda>n. False)) roles fx_init =
     ([\<lparr>role = Validator, privateKey = ''k0'', address = ''A:k0''\<rparr>,
       \<lparr>role = Validator, privateKey = ''k1'', address = ''A:k1''\<rparr>,
       \<lparr>role = BatchPoster, privateKey = ''k2'', address = ''A:k2''\<rparr>],
      \<lparr>trace = [], keysDrawn = 3\<rparr>)
   \<and> inj_on (generatePrivateKey (fixture 0 (\<lambda>n. False))) {0 ..< 3}
   \<and> inj_on (privateKeyToAddress (fixture 0 (\<lambda>n. False)))
        (generatePrivateKey (fixture 0 (\<lambda>n. False)) ` {0 ..< 3})
   \<and> distinct [''A:k0'', ''A:k1'', ''A:k2'']"
proof -
  let ?fx = "fixture 0 (\<lambda>n. False)"
  let ?accs = "[\<lparr>role = Validator, privateKey = ''k0'', address = ''A:k0''\<rparr>,
       \<lparr>role = Validator, privateKey = ''k1'', address = ''A:k1''\<rparr>,
       \<lparr>role = BatchPoster, privateKey = ''k2'', address = ''A:k2''\<rparr>]"
  have p: "provisionAccounts ?fx roles fx_init = (?accs, \<lparr>trace = [], keysDrawn = 3\<rparr>)"
    unfolding provisionAccounts_roles by (simp add: fixture_sel fx_init_def)
  have set3: "{0 ..< 3::nat} = {0, 1, 2}" by auto
  have k: "inj_on (generatePrivateKey ?fx) {0 ..< 3}"
    unfolding set3 by (simp add: fixture_sel)
  have a: "inj_on (privateKeyToAddress ?fx) (generatePrivateKey ?fx ` {0 ..< 3})"
    by (simp add: inj_on_def fixture_sel)
  have k': "inj_on (generatePrivateKey ?fx) {keysDrawn fx_init ..< keysDrawn fx_init + 3}"
    and a': "inj_on (privateKeyToAddress ?fx)
        (generatePrivateKey ?fx ` {keysDrawn fx_init ..< keysDrawn fx_init + 3})"
    using k a by (simp_all add: fx_init_def)
  from provisioning_three_accounts [OF p] k' a'
  have "distinct (map address ?accs)" by blast
  then have "distinct [''A:k0'', ''A:k1'', ''A:k2'']" by simp
  with p k a show ?thesis by blast
qed

section \<open>Funding\<close>

lemma sendTestTokens_state:
  "sendTestTokens env d a s = (r, s1) \<Longrightarrow>
     r = sendTransaction env (trace s) d a TEST_TOKENS_AMOUNT
     \<and> trace s1 = trace s @ [Transfer d a TEST_TOKENS_AMOUNT r]
     \<and> keysDrawn s1 = keysDrawn s"
  by (auto simp: sendTestTokens_def Let_def)

lemma fundAccounts_events:
  "fundAccounts env d accs s = (r, s') \<Longrightarrow>
   \<exists>evs. trace s' = trace s @ evs \<and> keysDrawn s' = keysDrawn s \<and> length evs \<le> length accs
     \<and> (\<forall>i<length evs. evs ! i = Transfer d (address (accs ! i)) TEST_TOKENS_AMOUNT
            (sendTransaction env (trace s @ take i evs) d (address (accs ! i)) TEST_TOKENS_AMOUNT))
     \<and> (\<forall>i. Suc i < length evs \<longrightarrow>
            (\<exists>h. sendTransaction env (trace s @ take i evs) d (address (accs ! i))
                    TEST_TOKENS_AMOUNT = Inr h))
     \<and> (r = Inr () \<longrightarrow> length evs = length accs
          \<and> (\<forall>i<length evs. \<exists>h. sendTransaction env (trace s @ take i evs) d
                 (address (accs ! i)) TEST_TOKENS_AMOUNT = Inr h))
     \<and> (\<forall>e. r = Inl e \<longrightarrow> evs \<noteq> []
          \<and> sendTransaction env (trace s @ butlast evs) d
                 (address (accs ! (length evs - 1))) TEST_TOKENS_AMOUNT = Inl e)"
proof (induction accs arbitrary: s)
  case Nil
  then show ?case by auto
next
  case (Cons a accs)
  obtain r1 s1 where st: "sendTestTokens env d (address a) s = (r1, s1)"
    by (cases "sendTestTokens env d (address a) s") auto
  note f = sendTestTokens_state [OF st]
  let ?ev = "Transfer d (address a) TEST_TOKENS_AMOUNT r1"
  show ?case
  proof (cases r1)
    case (Inl e)
    with Cons.prems st have "r = Inl e" "s' = s1" by auto
    with f Inl show ?thesis
      by (intro exI [of _ "[?ev]"]) auto
  next
    case (Inr h)
    with Cons.prems st have rec: "fundAccounts env d accs s1 = (r, s')" by auto
    from Cons.IH [OF rec] obtain evs where
      t: "trace s' = trace s1 @ evs" and k: "keysDrawn s' = keysDrawn s1"
      and l: "length evs \<le> length accs"
      and n: "\<forall>i<length evs. evs ! i = Transfer d (address (accs ! i)) TEST_TOKENS_AMOUNT
            (sendTransaction env (trace s1 @ take i evs) d (address (accs ! i)) TEST_TOKENS_AMOUNT)"
      and ok: "\<forall>i. Suc i < length evs \<longrightarrow>
            (\<exists>h. sendTransaction env (trace s1 @ take i evs) d (address (accs ! i))
                    TEST_TOKENS_AMOUNT = Inr h)"
      and fin: "r = Inr () \<longrightarrow> length evs = length accs
          \<and> (\<forall>i<length evs. \<exists>h. sendTransaction env (trace s1 @ take i evs) d
                 (address (accs ! i)) TEST_TOKENS_AMOUNT = Inr h)"
      and fail: "\<forall>e. r = Inl e \<longrightarrow> evs \<noteq> []
          \<and> sendTransaction env (trace s1 @ butlast evs) d
                 (address (accs ! (length evs - 1))) TEST_TOKENS_AMOUNT = Inl e"
      by blast
    have s1: "trace s1 = trace s @ [?ev]" "keysDrawn s1 = keysDrawn s"
      and r1: "sendTransaction env (trace s) d (address a) TEST_TOKENS_AMOUNT = Inr h"
      using f Inr by auto
    show ?thesis
    proof (intro exI [of _ "?ev # evs"] conjI allI impI)
      show "trace s' = trace s @ ?ev # evs" using t s1 by simp
      show "keysDrawn s' = keysDrawn s" using k s1 by simp
      show "length (?ev # evs) \<le> length (a # accs)" using l by simp
    next
      fix i assume "i < length (?ev # evs)"
      then show "(?ev # evs) ! i = Transfer d (address ((a # accs) ! i)) TEST_TOKENS_AMOUNT
            (sendTransaction env (trace s @ take i (?ev # evs)) d (address ((a # accs) ! i))
               TEST_TOKENS_AMOUNT)"
        using n s1 r1 Inr f by (cases i) auto
    next
      fix i assume "Suc i < length (?ev # evs)"
      then show "\<exists>h. sendTransaction env (trace s @ take i (?ev # evs)) d
              (address ((a # accs) ! i)) TEST_TOKENS_AMOUNT = Inr h"
        using ok s1 r1 by (cases i) auto
    next
      assume "r = Inr ()"
      then show "length (?ev # evs) = length (a # accs)" using fin by simp
    next
      fix i assume "r = Inr ()" "i < length (?ev # evs)"
      then show "\<exists>h. sendTransaction env (trace s @ take i (?ev # evs)) d
              (address ((a # accs) ! i)) TEST_TOKENS_AMOUNT = Inr h"
        using fin s1 r1 by (cases i) auto
    next
      fix e assume "r = Inl e"
      then show "?ev # evs \<noteq> []" by simp
    next
      fix e assume e: "r = Inl e"
      with fail have ne: "evs \<noteq> []" and
        x: "sendTransaction env (trace s1 @ butlast evs) d
                 (address (accs ! (length evs - 1))) TEST_TOKENS_AMOUNT = Inl e" by auto
      from ne obtain m where m: "length evs = Suc m" by (cases evs) auto
      show "sendTransaction env (trace s @ butlast (?ev # evs)) d
              (address ((a # accs) ! (length (?ev # evs) - 1))) TEST_TOKENS_AMOUNT = Inl e"
        using x ne s1 m by simp
    qed
  qed
qed

lemma funding_failure_aborts_run:
  assumes "preflight env s0 = Inr (Some chainId)"
      and "provisionAccounts env roles s0 = (accounts, s1)"
      and "fundAccounts env (deployer env) accounts s1 = (Inl e, s2)"
  shows "deployChain_accounts env parentChain s0 = (Inl e, s2)"
  using assms by (simp add: deployChain_accounts_def deploySteps_accounts_def)

text \<open>
  C4. The funding loop issues its transfers one at a time in the order of the account
  list: the events it adds to the trace are transfers of \<open>TEST_TOKENS_AMOUNT\<close> from the
  sender to the first accounts of the list, in that order, and the answer recorded for
  transfer \<open>i\<close> is the one the base chain gives after the transfers before it (each
  call is awaited before the next is made). Every transfer but the last one issued was
  accepted. When the loop returns normally, there is one accepted transfer per account.
  When it fails with \<open>e\<close>, the last transfer issued is the one rejected with \<open>e\<close>: no
  later account is ever tried, and the earlier transfers stay in the trace, with no
  event that would undo them. In \<open>deployChain\<close> (role-mapped variant) a failing funding
  loop ends the run with that error in the state the loop left: nothing is deployed or
  written.
\<close>

theorem funding_in_order_stops_at_failure:
  "(fundAccounts env d accs s = (r, s') \<longrightarrow>
     (\<exists>evs. trace s' = trace s @ evs \<and> keysDrawn s' = keysDrawn s \<and> length evs \<le> length accs
       \<and> (\<forall>i<length evs. evs ! i = Transfer d (address (accs ! i)) TEST_TOKENS_AMOUNT
            (sendTransaction env (trace s @ take i evs) d (address (accs ! i)) TEST_TOKENS_AMOUNT))
       \<and> (\<forall>i. Suc i < length evs \<longrightarrow>
            (\<exists>h. sendTransaction env (trace s @ take i evs) d (address (accs ! i))
                    TEST_TOKENS_AMOUNT = Inr h))
       \<and> (r = Inr () \<longrightarrow> length evs = length accs
            \<and> (\<forall>i<length evs. \<exists>h. sendTransaction env (trace s @ take i evs) d
                   (address (accs ! i)) TEST_TOKENS_AMOUNT = Inr h))
       \<and> (\<forall>e. r = Inl e \<longrightarrow> evs \<noteq> []
            \<and> sendTransaction env (trace s @ butlast evs) d
                   (address (accs ! (length evs - 1))) TEST_TOKENS_AMOUNT = Inl e)))
   \<and> (preflight env s0 = Inr (Some chainId)
        \<and> provisionAccounts env roles s0 = (accounts, s1)
        \<and> fundAccounts env (deployer env) accounts s1 = (Inl e0, s2)
      \<longrightarrow> deployChain_accounts env parentChain s0 = (Inl e0, s2))"
  using fundAccounts_events [of env d accs s r s'] funding_failure_aborts_run
  by blast

theorem funding_in_order_stops_at_failure_witness:
  "fundAccounts (fixture 5000000000000000 (\<lambda>n. n = 1)) ''0xdeployer''
      [\<lparr>role = Validator, privateKey = ''k0'', address = ''A:k0''\<rparr>,
       \<lparr>role = Validator, privateKey = ''k1'', address = ''A:k1''\<rparr>,
       \<lparr>role = BatchPoster, privateKey = ''k2'', address = ''A:k2''\<rparr>]
      \<lparr>trace = [], keysDrawn = 3\<rparr>
    = (Inl TransferError,
       \<lparr>trace = [Transfer ''0xdeployer'' ''A:k0'' TEST_TOKENS_AMOUNT (Inr ''0xt''),
                 Transfer ''0xdeployer'' ''A:k1'' TEST_TOKENS_AMOUNT (Inl TransferError)],
        keysDrawn = 3\<rparr>)
   \<and> deployChain_accounts (fixture 5000000000000000 (\<lambda>n. n = 1)) fx_chain fx_init
    = (Inl TransferError,
       \<lparr>trace = [Transfer ''0xdeployer'' ''A:k0'' TEST_TOKENS_AMOUNT (Inr ''0xt''),
                 Transfer ''0xdeployer'' ''A:k1'' TEST_TOKENS_AMOUNT (Inl TransferError)],
        keysDrawn = 3\<rparr>)
   \<and> (\<exists>evs. [Transfer ''0xdeployer'' ''A:k0'' TEST_TOKENS_AMOUNT (Inr ''0xt''),
              Transfer ''0xdeployer'' ''A:k1'' TEST_TOKENS_AMOUNT (Inl TransferError)] = [] @ evs
            \<and> length evs \<le> 3)"
proof -
  let ?fx = "fixture 5000000000000000 (\<lambda>n. n = 1)"
  let ?accs = "[\<lparr>role = Validator, privateKey = ''k0'', address = ''A:k0''\<rparr>,
       \<lparr>role = Validator, privateKey = ''k1'', address = ''A:k1''\<rparr>,
       \<lparr>role = BatchPoster, privateKey = ''k2'', address = ''A:k2''\<rparr>]"
  let ?s1 = "\<lparr>trace = [], keysDrawn = 3\<rparr>"
  let ?s2 = "\<lparr>trace = [Transfer ''0xdeployer'' ''A:k0'' TEST_TOKENS_AMOUNT (Inr ''0xt''),
                 Transfer ''0xdeployer'' ''A:k1'' TEST_TOKENS_AMOUNT (Inl TransferError)],
        keysDrawn = 3\<rparr>"
  have pre: "preflight ?fx fx_init = Inr (Some 412346)"
    by (simp add: preflight_def fixture_sel fx_init_def TOKEN_NEEDS_FOR_DEPLOY_def
          BASE_STAKE_def TEST_TOKENS_AMOUNT_def)
  have prov: "provisionAccounts ?fx roles fx_init = (?accs, ?s1)"
    by (simp add: roles_def drawKey_def fixture_sel fx_init_def)
  have dpl: "deployer ?fx = ''0xdeployer''" by (simp add: fixture_sel)
  have fund0: "fundAccounts ?fx ''0xdeployer'' ?accs ?s1 = (Inl TransferError, ?s2)"
    by (simp add: sendTestTokens_def fixture_sel Let_def)
  then have fund: "fundAccounts ?fx (deployer ?fx) ?accs ?s1 = (Inl TransferError, ?s2)"
    by (simp only: dpl)
  note inst = funding_in_order_stops_at_failure
    [where env = ?fx and d = "deployer ?fx" and accs = ?accs and s = ?s1
       and r = "Inl TransferError" and s' = ?s2 and ?s0.0 = fx_init and chainId = 412346
       and accounts = ?accs and ?s1.0 = ?s1 and ?e0.0 = TransferError and ?s2.0 = ?s2
       and parentChain = fx_chain]
  from inst pre prov fund
  have run: "deployChain_accounts ?fx fx_chain fx_init = (Inl TransferError, ?s2)"
    by blast
  from inst fund
  have "\<exists>evs. trace ?s2 = trace ?s1 @ evs \<and> length evs \<le> length ?accs"
    by blast
  then have ev: "\<exists>evs. [Transfer ''0xdeployer'' ''A:k0'' TEST_TOKENS_AMOUNT (Inr ''0xt''),
              Transfer ''0xdeployer'' ''A:k1'' TEST_TOKENS_AMOUNT (Inl TransferError)] = [] @ evs
            \<and> length evs \<le> 3"
    by simp
  from fund0 run ev show ?thesis by blast
qed

section \<open>More facts about the concrete world\<close>

lemma fx_events:
  "coreContractEvents fx_decodeLog fx_receipt = [(''rollup'', ''0xR''), (''inbox'', ''0xI'')]"
  by (simp add: coreContractEvents_def fx_receipt_def fx_logs_def fx_decodeLog_def
        map_filter_simps)

lemma fx_core:
  "getCoreContracts (fixture b rj) fx_receipt = Inr fx_coreContracts"
  by (simp add: fixture_sel fx_receipt_def fx_logs_def)

lemma fx_valid: "validReceipt fx_decodeLog fx_expected fx_receipt"
  by (simp add: validReceipt_def fx_events fx_expected_def)

lemma fx_text:
  "rc_chainConfig (createRollupConfig (fixture b rj) dpl chainId) = fx_chainConfigText"
  "rc_chainConfig (config fx_params) = fx_chainConfigText"
  by (simp_all add: createRollupConfig_def fixture_sel fx_deploymentParamsConfig_def fx_params_def)

lemma fx_generate:
  "generateNodeConfiguration (fixture b rj) ''0xrollup'' parentChain t =
     Inr \<lparr>res_nodeConfig =
            nodeConfigParameters (fixture b rj)
              \<lparr>cc_chainId = 412346, cc_InitialChainOwner = ''0xdeployer'',
               cc_DataAvailabilityCommittee = True\<rparr>
              fx_coreContracts
              (config fx_params) parentChain,
          res_chainConfig =
            \<lparr>cc_chainId = 412346, cc_InitialChainOwner = ''0xdeployer'',
             cc_DataAvailabilityCommittee = True\<rparr>\<rparr>"
  by (simp add: generateNodeConfiguration_def fixture_sel fx_receipt_def fx_logs_def fx_text
        fx_JSON_parse_def Let_def)

section \<open>The funding requirement\<close>

lemma transfersOf_append: "transfersOf (t @ u) = transfersOf t @ transfersOf u"
  by (induction t rule: transfersOf.induct) simp_all

lemma writeNodeConfig_transfers:
  "writeNodeConfig env h pc s = (r, s') \<Longrightarrow> transfersOf (trace s') = transfersOf (trace s)"
  by (auto simp: writeNodeConfig_def Let_def transfersOf_append split: sum.splits)

lemma deploySteps_transfers:
  assumes "deploySteps env pc cid s = (r, s')"
  shows "\<exists>k\<le>3. transfersOf (trace s') = transfersOf (trace s) @ take k
           [(deployer env, privateKeyToAddress env (generatePrivateKey env (keysDrawn s)),
               TEST_TOKENS_AMOUNT),
            (deployer env, privateKeyToAddress env (generatePrivateKey env (keysDrawn s + 1)),
               TEST_TOKENS_AMOUNT),
            (deployer env, privateKeyToAddress env (generatePrivateKey env (keysDrawn s + 2)),
               TEST_TOKENS_AMOUNT)]
         \<and> (\<forall>res. r = Inr res \<longrightarrow> k = 3)"
proof -
  let ?d = "deployer env"
  let ?a0 = "privateKeyToAddress env (generatePrivateKey env (keysDrawn s))"
  let ?a1 = "privateKeyToAddress env (generatePrivateKey env (Suc (keysDrawn s)))"
  let ?a2 = "privateKeyToAddress env (generatePrivateKey env (Suc (Suc (keysDrawn s))))"
  let ?s3 = "s\<lparr>keysDrawn := Suc (Suc (Suc (keysDrawn s)))\<rparr>"
  obtain r4 s4 where t4: "sendTestTokens env ?d ?a0 ?s3 = (r4, s4)" by force
  obtain r5 s5 where t5: "sendTestTokens env ?d ?a1 s4 = (r5, s5)" by force
  obtain r6 s6 where t6: "sendTestTokens env ?d ?a2 s5 = (r6, s6)" by force
  obtain r7 s7 where t7: "deployRollupContracts env ?d [?a0, ?a1] ?a2 cid s6 = (r7, s7)" by force
  have e4: "transfersOf (trace s4) = transfersOf (trace s) @ [(?d, ?a0, TEST_TOKENS_AMOUNT)]"
    using t4 by (auto simp: sendTestTokens_def Let_def transfersOf_append)
  have e5: "transfersOf (trace s5) = transfersOf (trace s4) @ [(?d, ?a1, TEST_TOKENS_AMOUNT)]"
    using t5 by (auto simp: sendTestTokens_def Let_def transfersOf_append)
  have e6: "transfersOf (trace s6) = transfersOf (trace s5) @ [(?d, ?a2, TEST_TOKENS_AMOUNT)]"
    using t6 by (auto simp: sendTestTokens_def Let_def transfersOf_append)
  have e7: "transfersOf (trace s7) = transfersOf (trace s6)"
    using t7 by (auto simp: deployRollupContracts_def Let_def transfersOf_append)
  have steps: "deploySteps env pc cid s =
      (case r4 of Inl e \<Rightarrow> (Inl e, s4) | Inr _ \<Rightarrow>
        (case r5 of Inl e \<Rightarrow> (Inl e, s5) | Inr _ \<Rightarrow>
          (case r6 of Inl e \<Rightarrow> (Inl e, s6) | Inr _ \<Rightarrow>
            (case r7 of Inl e \<Rightarrow> (Inl e, s7)
             | Inr res \<Rightarrow> writeNodeConfig env (transaction_hash res) pc s7))))"
    using t4 t5 t6 t7 by (simp add: deploySteps_def drawKey_def split: sum.splits)
  show ?thesis
  proof (cases r4)
    case (Inl e)
    with steps assms e4 show ?thesis by (intro exI [of _ 1]) auto
  next
    case r4: (Inr h4)
    show ?thesis
    proof (cases r5)
      case (Inl e)
      with steps assms r4 e4 e5 show ?thesis by (intro exI [of _ 2]) auto
    next
      case r5: (Inr h5)
      have all: "transfersOf (trace s7) = transfersOf (trace s) @
           [(?d, ?a0, TEST_TOKENS_AMOUNT), (?d, ?a1, TEST_TOKENS_AMOUNT),
            (?d, ?a2, TEST_TOKENS_AMOUNT)]"
        "transfersOf (trace s6) = transfersOf (trace s) @
           [(?d, ?a0, TEST_TOKENS_AMOUNT), (?d, ?a1, TEST_TOKENS_AMOUNT),
            (?d, ?a2, TEST_TOKENS_AMOUNT)]"
        using e4 e5 e6 e7 by simp_all
      show ?thesis
      proof (cases r6)
        case (Inl e)
        with steps assms r4 r5 all show ?thesis by (intro exI [of _ 3]) auto
      next
        case r6: (Inr h6)
        show ?thesis
        proof (cases r7)
          case (Inl e)
          with steps assms r4 r5 r6 all show ?thesis by (intro exI [of _ 3]) auto
        next
          case (Inr res)
          with steps assms r4 r5 r6
          have "writeNodeConfig env (transaction_hash res) pc s7 = (r, s')" by simp
          from writeNodeConfig_transfers [OF this] all show ?thesis
            by (intro exI [of _ 3]) auto
        qed
      qed
    qed
  qed
qed

lemma fx_run:
  "deployChain (fixture 5000000000000000 (\<lambda>n. False)) fx_chain fx_init =
       (Inr (Some \<lparr>cc_chainId = 412346, cc_InitialChainOwner = ''0xdeployer'',
                   cc_DataAvailabilityCommittee = True\<rparr>),
        \<lparr>trace =
           [Transfer ''0xdeployer'' ''A:k0'' 1000000000000000 (Inr ''0xt''),
            Transfer ''0xdeployer'' ''A:k1'' 1000000000000000 (Inr ''0xt''),
            Transfer ''0xdeployer'' ''A:k2'' 1000000000000000 (Inr ''0xt''),
            RollupCreation fx_params ''0xdeployer'' (Inr \<lparr>transaction_hash = ''0xrollup''\<rparr>),
            FileWrite ''node-config.json'' ''batchPoster=envBP validator=envVAL'' (Inr ())],
         keysDrawn = 3\<rparr>)"
proof -
  let ?fx = "fixture 5000000000000000 (\<lambda>n. False)"
  have pre: "preflight ?fx fx_init = Inr (Some 412346)"
    by (simp add: preflight_def fixture_sel fx_init_def TOKEN_NEEDS_FOR_DEPLOY_def
          BASE_STAKE_def TEST_TOKENS_AMOUNT_def)
  have par: "\<lparr>config = createRollupConfig ?fx ''0xdeployer'' 412346, batchPosters = [''A:k2''],
              validators = [''A:k0'', ''A:k1'']\<rparr> = fx_params"
    by (simp add: fx_params_def createRollupConfig_def fixture_sel)
  have steps: "deploySteps ?fx fx_chain 412346 fx_init =
      (Inr \<lparr>res_nodeConfig =
            nodeConfigParameters ?fx
              \<lparr>cc_chainId = 412346, cc_InitialChainOwner = ''0xdeployer'',
               cc_DataAvailabilityCommittee = True\<rparr>
              fx_coreContracts
              (config fx_params) fx_chain,
          res_chainConfig =
            \<lparr>cc_chainId = 412346, cc_InitialChainOwner = ''0xdeployer'',
             cc_DataAvailabilityCommittee = True\<rparr>\<rparr>,
        \<lparr>trace =
           [Transfer ''0xdeployer'' ''A:k0'' 1000000000000000 (Inr ''0xt''),
            Transfer ''0xdeployer'' ''A:k1'' 1000000000000000 (Inr ''0xt''),
            Transfer ''0xdeployer'' ''A:k2'' 1000000000000000 (Inr ''0xt''),
            RollupCreation fx_params ''0xdeployer'' (Inr \<lparr>transaction_hash = ''0xrollup''\<rparr>),
            FileWrite ''node-config.json'' ''batchPoster=envBP validator=envVAL'' (Inr ())],
         keysDrawn = 3\<rparr>)"
    by (simp add: deploySteps_def drawKey_def fx_init_def sendTestTokens_def
          deployRollupContracts_def writeNodeConfig_def fx_generate fixture_sel par
          nodeConfigParameters_def fx_show_key_def TEST_TOKENS_AMOUNT_def Let_def)
  show ?thesis by (simp add: deployChain_def pre steps)
qed

lemma deployChain_transfers:
  assumes "deployChain env pc s = (r, s')"
  shows "\<exists>k\<le>3. transfersOf (trace s') = transfersOf (trace s) @ take k
           [(deployer env, privateKeyToAddress env (generatePrivateKey env (keysDrawn s)),
               TEST_TOKENS_AMOUNT),
            (deployer env, privateKeyToAddress env (generatePrivateKey env (keysDrawn s + 1)),
               TEST_TOKENS_AMOUNT),
            (deployer env, privateKeyToAddress env (generatePrivateKey env (keysDrawn s + 2)),
               TEST_TOKENS_AMOUNT)]
         \<and> (\<forall>cc. r = Inr (Some cc) \<longrightarrow> k = 3)"
proof (cases "preflight env s")
  case (Inl e)
  with assms show ?thesis by (intro exI [of _ 0]) (auto simp: deployChain_def)
next
  case (Inr c)
  show ?thesis
  proof (cases c)
    case None
    with Inr assms show ?thesis by (intro exI [of _ 0]) (auto simp: deployChain_def)
  next
    case (Some cid)
    obtain r1 s1 where st: "deploySteps env pc cid s = (r1, s1)" by force
    from deploySteps_transfers [OF st] obtain k where k: "k \<le> 3"
      "transfersOf (trace s1) = transfersOf (trace s) @ take k
           [(deployer env, privateKeyToAddress env (generatePrivateKey env (keysDrawn s)),
               TEST_TOKENS_AMOUNT),
            (deployer env, privateKeyToAddress env (generatePrivateKey env (keysDrawn s + 1)),
               TEST_TOKENS_AMOUNT),
            (deployer env, privateKeyToAddress env (generatePrivateKey env (keysDrawn s + 2)),
               TEST_TOKENS_AMOUNT)]"
      "\<forall>res. r1 = Inr res \<longrightarrow> k = 3" by blast
    from assms Inr Some st have "s' = s1" "\<forall>cc. r = Inr (Some cc) \<longrightarrow> (\<exists>res. r1 = Inr res)"
      by (auto simp: deployChain_def split: sum.splits)
    with k show ?thesis by (intro exI [of _ k]) auto
  qed
qed

lemma preflight_threshold:
  assumes "getBalance env (trace s) (deployer env) = Inr balance"
  shows "preflight env s =
      (if balance < BASE_STAKE + TEST_TOKENS_AMOUNT * 4 then Inr None
       else (case prompt env (generateChainId env) of
               Inl e \<Rightarrow> Inl e
             | Inr answers \<Rightarrow>
                 if ans_confirm answers then Inr (Some (ans_chainId answers)) else Inr None))"
  using assms by (simp add: preflight_def TOKEN_NEEDS_FOR_DEPLOY_def split: sum.splits)

text \<open>
  C2, as stated: the balance would be checked against the base stake plus one funding
  amount for each of the three funded accounts. A deployer holding 0.0035 ether has that
  much, and in a world where every collaborator succeeds the run still stops at the
  balance check, with nothing issued.
\<close>

theorem funding_requirement_not_three_units:
  "BASE_STAKE + TEST_TOKENS_AMOUNT * int (length roles) \<le> 3500000000000000
   \<and> deployChain (fixture 3500000000000000 (\<lambda>n. False)) fx_chain fx_init = (Inr None, fx_init)"
  by (simp add: deployChain_def preflight_def fixture_sel TOKEN_NEEDS_FOR_DEPLOY_def
        BASE_STAKE_def TEST_TOKENS_AMOUNT_def roles_def)

text \<open>
  C2, amended: the threshold checked against the balance the deployer is found to hold
  is the base stake plus four funding amounts, one more than the number of funded
  accounts (the source's comment counts the deployer as the fourth). Below it the run
  returns \<^verbatim>\<open>null\<close> with its state unchanged; at or above it the balance check lets the run
  go on to the prompt. Whatever happens then, the transfers of the run are the first
  \<open>k \<le> 3\<close> of three transfers of \<open>TEST_TOKENS_AMOUNT\<close> from the deployer to the addresses
  of the three keys drawn (validator, validator, batch poster), and a run that returns a
  chain configuration has made all three: exactly three accounts are funded.
\<close>

theorem funding_requirement_four_units:
  assumes bal: "getBalance env (trace s) (deployer env) = Inr balance"
      and run: "deployChain env pc s = (r, s')"
  shows "(balance < BASE_STAKE + TEST_TOKENS_AMOUNT * 4 \<longrightarrow> r = Inr None \<and> s' = s)
     \<and> (BASE_STAKE + TEST_TOKENS_AMOUNT * 4 \<le> balance \<longrightarrow>
          preflight env s =
            (case prompt env (generateChainId env) of
               Inl e \<Rightarrow> Inl e
             | Inr answers \<Rightarrow>
                 if ans_confirm answers then Inr (Some (ans_chainId answers)) else Inr None))
     \<and> (\<exists>k\<le>3. transfersOf (trace s') = transfersOf (trace s) @ take k
           [(deployer env, privateKeyToAddress env (generatePrivateKey env (keysDrawn s)),
               TEST_TOKENS_AMOUNT),
            (deployer env, privateKeyToAddress env (generatePrivateKey env (keysDrawn s + 1)),
               TEST_TOKENS_AMOUNT),
            (deployer env, privateKeyToAddress env (generatePrivateKey env (keysDrawn s + 2)),
               TEST_TOKENS_AMOUNT)]
         \<and> (\<forall>cc. r = Inr (Some cc) \<longrightarrow> k = 3))
     \<and> BASE_STAKE + TEST_TOKENS_AMOUNT * 4
         = BASE_STAKE + TEST_TOKENS_AMOUNT * (int (length roles) + 1)
     \<and> length roles = 3"
proof -
  note p = preflight_threshold [OF bal]
  have a: "balance < BASE_STAKE + TEST_TOKENS_AMOUNT * 4 \<longrightarrow> r = Inr None \<and> s' = s"
    using run p by (auto simp: deployChain_def)
  have b: "BASE_STAKE + TEST_TOKENS_AMOUNT * 4 \<le> balance \<longrightarrow>
          preflight env s =
            (case prompt env (generateChainId env) of
               Inl e \<Rightarrow> Inl e
             | Inr answers \<Rightarrow>
                 if ans_confirm answers then Inr (Some (ans_chainId answers)) else Inr None)"
    using p by simp
  have c: "BASE_STAKE + TEST_TOKENS_AMOUNT * 4
         = BASE_STAKE + TEST_TOKENS_AMOUNT * (int (length roles) + 1) \<and> length roles = 3"
    by (simp add: roles_def)
  from a b c deployChain_transfers [OF run] show ?thesis by blast
qed

theorem funding_requirement_four_units_witness:
  "deployChain (fixture 4010000000000000 (\<lambda>n. False)) fx_chain fx_init \<noteq> (Inr None, fx_init)
   \<and> deployChain (fixture 4009999999999999 (\<lambda>n. False)) fx_chain fx_init = (Inr None, fx_init)
   \<and> length (transfersOf (trace (snd
        (deployChain (fixture 5000000000000000 (\<lambda>n. False)) fx_chain fx_init)))) = 3"
proof -
  let ?lo = "fixture 4009999999999999 (\<lambda>n. False)"
  let ?at = "fixture 4010000000000000 (\<lambda>n. False)"
  let ?ok = "fixture 5000000000000000 (\<lambda>n. False)"
  have v: "BASE_STAKE + TEST_TOKENS_AMOUNT * 4 = 4010000000000000"
    by (simp add: BASE_STAKE_def TEST_TOKENS_AMOUNT_def)
  have blo: "getBalance ?lo (trace fx_init) (deployer ?lo) = Inr 4009999999999999"
    and bat: "getBalance ?at (trace fx_init) (deployer ?at) = Inr 4010000000000000"
    and bok: "getBalance ?ok (trace fx_init) (deployer ?ok) = Inr 5000000000000000"
    by (simp_all add: fixture_sel)
  obtain r1 s1 where lo: "deployChain ?lo fx_chain fx_init = (r1, s1)" by force
  from funding_requirement_four_units [OF blo lo] v
  have "r1 = Inr None \<and> s1 = fx_init" by simp
  with lo have 1: "deployChain ?lo fx_chain fx_init = (Inr None, fx_init)" by simp
  obtain r2 s2 where at: "deployChain ?at fx_chain fx_init = (r2, s2)" by force
  from funding_requirement_four_units [OF bat at] v
  have "preflight ?at fx_init = Inr (Some 412346)" by (simp add: fixture_sel)
  then have 2: "deployChain ?at fx_chain fx_init \<noteq> (Inr None, fx_init)"
    by (auto simp: deployChain_def split: prod.splits sum.splits)
  let ?S = "\<lparr>trace =
           [Transfer ''0xdeployer'' ''A:k0'' 1000000000000000 (Inr ''0xt''),
            Transfer ''0xdeployer'' ''A:k1'' 1000000000000000 (Inr ''0xt''),
            Transfer ''0xdeployer'' ''A:k2'' 1000000000000000 (Inr ''0xt''),
            RollupCreation fx_params ''0xdeployer'' (Inr \<lparr>transaction_hash = ''0xrollup''\<rparr>),
            FileWrite ''node-config.json'' ''batchPoster=envBP validator=envVAL'' (Inr ())],
         keysDrawn = 3\<rparr>"
  note inst = funding_requirement_four_units [OF bok fx_run]
  from inst [THEN conjunct2, THEN conjunct2, THEN conjunct1]
  obtain k where k: "transfersOf (trace ?S) = transfersOf (trace fx_init) @ take k
           [(deployer ?ok, privateKeyToAddress ?ok (generatePrivateKey ?ok (keysDrawn fx_init)),
               TEST_TOKENS_AMOUNT),
            (deployer ?ok, privateKeyToAddress ?ok (generatePrivateKey ?ok (keysDrawn fx_init + 1)),
               TEST_TOKENS_AMOUNT),
            (deployer ?ok, privateKeyToAddress ?ok (generatePrivateKey ?ok (keysDrawn fx_init + 2)),
               TEST_TOKENS_AMOUNT)]" and "k = 3"
    by blast
  then have "length (transfersOf (trace ?S)) = 3"
    by (simp add: fx_init_def)
  then have 3: "length (transfersOf (trace (snd (deployChain ?ok fx_chain fx_init)))) = 3"
    by (simp only: fx_run snd_conv)
  from 1 2 3 show ?thesis by blast
qed

section \<open>Deriving the node configuration\<close>

lemma generateNodeConfiguration_Inr:
  assumes "generateNodeConfiguration env h pc t = Inr res"
  shows "\<exists>tx txReceipt input0 rest core.
       getTransaction env t h = Inr tx
     \<and> getTransactionReceipt env t h = Inr txReceipt
     \<and> getInputs env tx = Inr (input0 # rest)
     \<and> JSON_parse env (rc_chainConfig (config input0)) = Inr (res_chainConfig res)
     \<and> getCoreContracts env txReceipt = Inr core
     \<and> prepareNodeConfig env
           (nodeConfigParameters env (res_chainConfig res) core (config input0) pc)
         = Inr (res_nodeConfig res)"
  using assms
  by (auto simp: generateNodeConfiguration_def Let_def split: sum.splits list.splits)

lemma generateNodeConfiguration_fails:
  assumes "getTransaction env t h = Inr tx" and "getTransactionReceipt env t h = Inr txReceipt"
  shows "getInputs env tx = Inl e \<Longrightarrow> generateNodeConfiguration env h pc t = Inl e"
    and "getInputs env tx = Inr [] \<Longrightarrow> generateNodeConfiguration env h pc t = Inl TypeError"
    and "getInputs env tx = Inr (input0 # rest) \<Longrightarrow>
         JSON_parse env (rc_chainConfig (config input0)) = Inl e
         \<Longrightarrow> generateNodeConfiguration env h pc t = Inl e"
    and "getInputs env tx = Inr (input0 # rest) \<Longrightarrow>
         JSON_parse env (rc_chainConfig (config input0)) = Inr cc \<Longrightarrow>
         getCoreContracts env txReceipt = Inl e
         \<Longrightarrow> generateNodeConfiguration env h pc t = Inl e"
  using assms by (simp_all add: generateNodeConfiguration_def Let_def)

lemma generateNodeConfiguration_succeeds:
  assumes "getTransaction env t h = Inr tx"
      and "getTransactionReceipt env t h = Inr txReceipt"
      and "getInputs env tx = Inr (input0 # rest)"
      and "JSON_parse env (rc_chainConfig (config input0)) = Inr cc"
      and "getCoreContracts env txReceipt = Inr core"
  shows "generateNodeConfiguration env h pc t =
           (case prepareNodeConfig env (nodeConfigParameters env cc core (config input0) pc) of
              Inl e \<Rightarrow> Inl e
            | Inr nc \<Rightarrow> Inr \<lparr>res_nodeConfig = nc, res_chainConfig = cc\<rparr>)"
  using assms by (simp add: generateNodeConfiguration_def Let_def)


lemma writeNodeConfig_fails:
  "generateNodeConfiguration env h pc (trace s) = Inl e \<Longrightarrow> writeNodeConfig env h pc s = (Inl e, s)"
  by (simp add: writeNodeConfig_def)

text \<open>
  C7. \<open>generateNodeConfiguration\<close> returns a result only when the transaction and the
  receipt were fetched, the calldata decoded to at least one input, the chain configuration
  text of the first input parsed, the core contracts were decoded from the receipt and the
  node configuration was prepared from exactly these values. When transaction and receipt
  are fetched and the calldata does not decode, or decodes to no input, or its chain
  configuration text does not parse, or the receipt's logs do not decode, the function
  fails with the decoder's error (a TypeError for the missing input): it never returns a
  configuration filled in part. A failed derivation writes no file.
\<close>

theorem config_derivation_all_or_nothing:
  "(generateNodeConfiguration env h pc t = Inr res \<longrightarrow>
      (\<exists>tx txReceipt input0 rest core.
         getTransaction env t h = Inr tx
       \<and> getTransactionReceipt env t h = Inr txReceipt
       \<and> getInputs env tx = Inr (input0 # rest)
       \<and> JSON_parse env (rc_chainConfig (config input0)) = Inr (res_chainConfig res)
       \<and> getCoreContracts env txReceipt = Inr core
       \<and> prepareNodeConfig env
             (nodeConfigParameters env (res_chainConfig res) core (config input0) pc)
           = Inr (res_nodeConfig res)))
   \<and> (getTransaction env t h = Inr tx' \<and> getTransactionReceipt env t h = Inr txReceipt' \<longrightarrow>
        (\<forall>e. getInputs env tx' = Inl e \<longrightarrow> generateNodeConfiguration env h pc t = Inl e)
      \<and> (getInputs env tx' = Inr [] \<longrightarrow> generateNodeConfiguration env h pc t = Inl TypeError)
      \<and> (\<forall>e input0 rest. getInputs env tx' = Inr (input0 # rest)
            \<and> JSON_parse env (rc_chainConfig (config input0)) = Inl e
            \<longrightarrow> generateNodeConfiguration env h pc t = Inl e)
      \<and> (\<forall>e input0 rest cc. getInputs env tx' = Inr (input0 # rest)
            \<and> JSON_parse env (rc_chainConfig (config input0)) = Inr cc
            \<and> getCoreContracts env txReceipt' = Inl e
            \<longrightarrow> generateNodeConfiguration env h pc t = Inl e))
   \<and> (\<forall>e s. generateNodeConfiguration env h pc (trace s) = Inl e
          \<longrightarrow> writeNodeConfig env h pc s = (Inl e, s))"
  using generateNodeConfiguration_Inr [of env h pc t res]
    generateNodeConfiguration_fails [of env t h tx' txReceipt']
    writeNodeConfig_fails [of env h pc]
  by blast

theorem config_derivation_all_or_nothing_witness:
  "(\<exists>res. generateNodeConfiguration (fixture 0 (\<lambda>n. False)) ''0xrollup'' fx_chain [] = Inr res
        \<and> fx_JSON_parse fx_chainConfigText = Inr (res_chainConfig res))
   \<and> generateNodeConfiguration
        ((fixture 0 (\<lambda>n. False))\<lparr>getInputs := (\<lambda>tx. Inl DecodingError)\<rparr>)
        ''0xrollup'' fx_chain (trace fx_init) = Inl DecodingError
   \<and> writeNodeConfig
        ((fixture 0 (\<lambda>n. False))\<lparr>getInputs := (\<lambda>tx. Inl DecodingError)\<rparr>)
        ''0xrollup'' fx_chain fx_init = (Inl DecodingError, fx_init)"
proof -
  let ?fx = "fixture 0 (\<lambda>n. False)"
  let ?bad = "?fx\<lparr>getInputs := (\<lambda>tx. Inl DecodingError)\<rparr>"
  let ?tx = "\<lparr>tx_hash = ''0xrollup'', tx_input = ''0xcalldata''\<rparr>"
  obtain res where g: "generateNodeConfiguration ?fx ''0xrollup'' fx_chain [] = Inr res"
    by (simp add: fx_generate)
  from config_derivation_all_or_nothing
         [where env = ?fx and h = "''0xrollup''" and pc = fx_chain and t = "[]" and res = res] g
  obtain tx input0 rest where
    "getTransaction ?fx [] ''0xrollup'' = Inr tx" "getInputs ?fx tx = Inr (input0 # rest)"
    "JSON_parse ?fx (rc_chainConfig (config input0)) = Inr (res_chainConfig res)"
    by blast
  then have ok: "fx_JSON_parse fx_chainConfigText = Inr (res_chainConfig res)"
    by (auto simp: fixture_sel fx_text split: if_splits)
  have a: "getTransaction ?bad (trace fx_init) ''0xrollup'' = Inr ?tx"
    and b: "getTransactionReceipt ?bad (trace fx_init) ''0xrollup'' = Inr fx_receipt"
    and c: "getInputs ?bad ?tx = Inl DecodingError"
    by (simp_all add: fixture_sel)
  note inst = config_derivation_all_or_nothing
         [where env = ?bad and h = "''0xrollup''" and pc = fx_chain and t = "trace fx_init"
            and tx' = ?tx and txReceipt' = fx_receipt]
  from inst a b c
  have bad: "generateNodeConfiguration ?bad ''0xrollup'' fx_chain (trace fx_init)
               = Inl DecodingError"
    by blast
  with inst have "writeNodeConfig ?bad ''0xrollup'' fx_chain fx_init = (Inl DecodingError, fx_init)"
    by blast
  with g ok bad show ?thesis by blast
qed

section \<open>The chain configuration survives the round trip\<close>




section \<open>The successful run\<close>

text \<open>
  C8. End to end, chain id 412346, deployer balance 0.005 ether, with every collaborator
  succeeding: transfers and the rollup creation are accepted, the transaction fetched under
  the returned hash decodes to a first input carrying the submitted chain configuration
  text, that text parses back to the document \<open>prepareChainConfig\<close> made (which keeps the
  chain id it is given), the receipt decodes, the node configuration is prepared and the
  file is written. Then \<open>deployChain\<close> draws
  exactly three keys, issues exactly three transfers of \<open>TEST_TOKENS_AMOUNT\<close> (0.001
  ether) to the three derived addresses in order, then exactly one rollup creation (base
  stake \<open>BASE_STAKE\<close>, 0.00001 ether; the first two addresses as validators, the third as
  batch poster), then the file write, and returns a chain configuration with chain id
  412346.
\<close>

theorem end_to_end_success:
  fixes env :: "'nc env"
  assumes bal: "getBalance env (trace s) (deployer env) = Inr 5000000000000000"
    and pr: "prompt env (generateChainId env) = Inr \<lparr>ans_chainId = 412346, ans_confirm = True\<rparr>"
    and send: "\<And>t a. \<exists>h. sendTransaction env t (deployer env) a TEST_TOKENS_AMOUNT = Inr h"
    and create: "\<And>t p. \<exists>result. createRollup env t p (deployer env) = Inr result"
    and fetch: "\<And>t vals bp result.
        createRollup env t
          \<lparr>config = createRollupConfig env (deployer env) 412346,
           batchPosters = bp, validators = vals\<rparr> (deployer env) = Inr result
        \<Longrightarrow> \<exists>tx input0 rest txReceipt core.
              getTransaction env
                (t @ [RollupCreation
                        \<lparr>config = createRollupConfig env (deployer env) 412346,
                         batchPosters = bp, validators = vals\<rparr> (deployer env) (Inr result)])
                (transaction_hash result) = Inr tx
            \<and> getInputs env tx = Inr (input0 # rest)
            \<and> rc_chainConfig (config input0)
                = rc_chainConfig (createRollupConfig env (deployer env) 412346)
            \<and> getTransactionReceipt env
                (t @ [RollupCreation
                        \<lparr>config = createRollupConfig env (deployer env) 412346,
                         batchPosters = bp, validators = vals\<rparr> (deployer env) (Inr result)])
                (transaction_hash result) = Inr txReceipt
            \<and> getCoreContracts env txReceipt = Inr core"
    and json: "JSON_parse env
                 (rc_chainConfig (createRollupPrepareDeploymentParamsConfig env
                    \<lparr>d_chainId = 412346, d_owner = deployer env, d_baseStake = BASE_STAKE,
                     d_chainConfig = prepareChainConfig env
                       \<lparr>p_chainId = 412346, p_InitialChainOwner = deployer env,
                        p_DataAvailabilityCommittee = True\<rparr>\<rparr>))
               = Inr (prepareChainConfig env
                       \<lparr>p_chainId = 412346, p_InitialChainOwner = deployer env,
                        p_DataAvailabilityCommittee = True\<rparr>)"
    and pcc: "\<And>p. cc_chainId (prepareChainConfig env p) = p_chainId p"
    and pnc: "\<And>np. \<exists>nc. prepareNodeConfig env np = Inr nc"
    and wf: "\<And>t content. writeFile env t ''node-config.json'' content = Inr ()"
  shows "\<exists>cc s' h0 h1 h2 result content.
      deployChain env parentChain s = (Inr (Some cc), s')
    \<and> cc = prepareChainConfig env
             \<lparr>p_chainId = 412346, p_InitialChainOwner = deployer env,
              p_DataAvailabilityCommittee = True\<rparr>
    \<and> cc_chainId cc = 412346
    \<and> keysDrawn s' = keysDrawn s + 3
    \<and> trace s' = trace s @
        [Transfer (deployer env)
           (privateKeyToAddress env (generatePrivateKey env (keysDrawn s)))
           TEST_TOKENS_AMOUNT (Inr h0),
         Transfer (deployer env)
           (privateKeyToAddress env (generatePrivateKey env (keysDrawn s + 1)))
           TEST_TOKENS_AMOUNT (Inr h1),
         Transfer (deployer env)
           (privateKeyToAddress env (generatePrivateKey env (keysDrawn s + 2)))
           TEST_TOKENS_AMOUNT (Inr h2),
         RollupCreation
           \<lparr>config = createRollupConfig env (deployer env) 412346,
            batchPosters = [privateKeyToAddress env (generatePrivateKey env (keysDrawn s + 2))],
            validators = [privateKeyToAddress env (generatePrivateKey env (keysDrawn s)),
                          privateKeyToAddress env (generatePrivateKey env (keysDrawn s + 1))]\<rparr>
           (deployer env) (Inr result),
         FileWrite ''node-config.json'' content (Inr ())]
    \<and> TEST_TOKENS_AMOUNT = 10 ^ 15 \<and> BASE_STAKE = 10 ^ 13
    \<and> rc_baseStake (createRollupConfig env (deployer env) 412346)
        = rc_baseStake (createRollupPrepareDeploymentParamsConfig env
            \<lparr>d_chainId = 412346, d_owner = deployer env, d_baseStake = BASE_STAKE,
             d_chainConfig = prepareChainConfig env
               \<lparr>p_chainId = 412346, p_InitialChainOwner = deployer env,
                p_DataAvailabilityCommittee = True\<rparr>\<rparr>)"
proof -
  let ?d = "deployer env"
  let ?a0 = "privateKeyToAddress env (generatePrivateKey env (keysDrawn s))"
  let ?a1 = "privateKeyToAddress env (generatePrivateKey env (Suc (keysDrawn s)))"
  let ?a2 = "privateKeyToAddress env (generatePrivateKey env (Suc (Suc (keysDrawn s))))"
  let ?p = "\<lparr>config = createRollupConfig env ?d 412346, batchPosters = [?a2],
             validators = [?a0, ?a1]\<rparr>"
  have pf: "preflight env s = Inr (Some 412346)"
    using bal pr
    by (simp add: preflight_def TOKEN_NEEDS_FOR_DEPLOY_def BASE_STAKE_def TEST_TOKENS_AMOUNT_def)
  from send obtain h0 where
    h0: "sendTransaction env (trace s) ?d ?a0 TEST_TOKENS_AMOUNT = Inr h0" by blast
  let ?t1 = "trace s @ [Transfer ?d ?a0 TEST_TOKENS_AMOUNT (Inr h0)]"
  from send obtain h1 where
    h1: "sendTransaction env ?t1 ?d ?a1 TEST_TOKENS_AMOUNT = Inr h1" by blast
  let ?t2 = "?t1 @ [Transfer ?d ?a1 TEST_TOKENS_AMOUNT (Inr h1)]"
  from send obtain h2 where
    h2: "sendTransaction env ?t2 ?d ?a2 TEST_TOKENS_AMOUNT = Inr h2" by blast
  let ?t3 = "?t2 @ [Transfer ?d ?a2 TEST_TOKENS_AMOUNT (Inr h2)]"
  from create obtain result where
    cr: "createRollup env ?t3 ?p ?d = Inr result" by blast
  let ?t4 = "?t3 @ [RollupCreation ?p ?d (Inr result)]"
  from fetch [OF cr] obtain tx input0 rest txReceipt core where
    tx: "getTransaction env ?t4 (transaction_hash result) = Inr tx"
    and inp: "getInputs env tx = Inr (input0 # rest)"
    and same: "rc_chainConfig (config input0) = rc_chainConfig (createRollupConfig env ?d 412346)"
    and rc: "getTransactionReceipt env ?t4 (transaction_hash result) = Inr txReceipt"
    and core: "getCoreContracts env txReceipt = Inr core"
    by blast
  define cc where "cc = prepareChainConfig env
      \<lparr>p_chainId = 412346, p_InitialChainOwner = ?d, p_DataAvailabilityCommittee = True\<rparr>"
  have js: "JSON_parse env (rc_chainConfig (createRollupConfig env ?d 412346)) = Inr cc"
    using json by (simp add: createRollupConfig_def cc_def)
  have cid: "cc_chainId cc = 412346"
    by (simp add: cc_def pcc)
  from pnc obtain nc where
    nc: "prepareNodeConfig env (nodeConfigParameters env cc core (config input0) parentChain)
           = Inr nc" by blast
  have gen: "generateNodeConfiguration env (transaction_hash result) parentChain ?t4
               = Inr \<lparr>res_nodeConfig = nc, res_chainConfig = cc\<rparr>"
    using tx inp same rc core js nc by (simp add: generateNodeConfiguration_def Let_def)
  let ?s' = "\<lparr>trace = ?t4 @ [FileWrite ''node-config.json'' (JSON_stringify env nc) (Inr ())],
             keysDrawn = keysDrawn s + 3\<rparr>"
  have steps: "deploySteps env parentChain 412346 s
                 = (Inr \<lparr>res_nodeConfig = nc, res_chainConfig = cc\<rparr>, ?s')"
    using h0 h1 h2 cr gen wf
    by (simp add: deploySteps_def drawKey_def sendTestTokens_def deployRollupContracts_def
          writeNodeConfig_def Let_def)
  have run: "deployChain env parentChain s = (Inr (Some cc), ?s')"
    using pf steps by (simp add: deployChain_def)
  show ?thesis
    apply (rule exI [of _ cc], rule exI [of _ ?s'], rule exI [of _ h0], rule exI [of _ h1],
           rule exI [of _ h2], rule exI [of _ result], rule exI [of _ "JSON_stringify env nc"])
    using run cid
    by (simp add: createRollupConfig_def TEST_TOKENS_AMOUNT_def BASE_STAKE_def cc_def)
qed

theorem end_to_end_success_witness:
  "\<exists>cc s'. deployChain (fixture 5000000000000000 (\<lambda>n. False)) fx_chain fx_init
              = (Inr (Some cc), s')
     \<and> cc_chainId cc = 412346 \<and> keysDrawn s' = 3 \<and> length (trace s') = 5"
proof -
  let ?fx = "fixture 5000000000000000 (\<lambda>n. False)"
  have bal: "getBalance ?fx (trace fx_init) (deployer ?fx) = Inr 5000000000000000"
    and pr: "prompt ?fx (generateChainId ?fx) = Inr \<lparr>ans_chainId = 412346, ans_confirm = True\<rparr>"
    and send: "\<And>t a. \<exists>h. sendTransaction ?fx t (deployer ?fx) a TEST_TOKENS_AMOUNT = Inr h"
    and create: "\<And>t p. \<exists>result. createRollup ?fx t p (deployer ?fx) = Inr result"
    and pnc: "\<And>np. \<exists>nc. prepareNodeConfig ?fx np = Inr nc"
    and wf: "\<And>t content. writeFile ?fx t ''node-config.json'' content = Inr ()"
    by (simp_all add: fixture_sel)
  have json: "JSON_parse ?fx
                 (rc_chainConfig (createRollupPrepareDeploymentParamsConfig ?fx
                    \<lparr>d_chainId = 412346, d_owner = deployer ?fx, d_baseStake = BASE_STAKE,
                     d_chainConfig = prepareChainConfig ?fx
                       \<lparr>p_chainId = 412346, p_InitialChainOwner = deployer ?fx,
                        p_DataAvailabilityCommittee = True\<rparr>\<rparr>))
               = Inr (prepareChainConfig ?fx
                       \<lparr>p_chainId = 412346, p_InitialChainOwner = deployer ?fx,
                        p_DataAvailabilityCommittee = True\<rparr>)"
    by (simp add: fixture_sel fx_deploymentParamsConfig_def fx_JSON_parse_def
          fx_prepareChainConfig_def)
  have pcc: "\<And>p. cc_chainId (prepareChainConfig ?fx p) = p_chainId p"
    by (simp add: fixture_sel fx_prepareChainConfig_def)
  have fetch: "\<And>t vals bp result.
        createRollup ?fx t
          \<lparr>config = createRollupConfig ?fx (deployer ?fx) 412346,
           batchPosters = bp, validators = vals\<rparr> (deployer ?fx) = Inr result
        \<Longrightarrow> \<exists>tx input0 rest txReceipt core.
              getTransaction ?fx
                (t @ [RollupCreation
                        \<lparr>config = createRollupConfig ?fx (deployer ?fx) 412346,
                         batchPosters = bp, validators = vals\<rparr> (deployer ?fx) (Inr result)])
                (transaction_hash result) = Inr tx
            \<and> getInputs ?fx tx = Inr (input0 # rest)
            \<and> rc_chainConfig (config input0)
                = rc_chainConfig (createRollupConfig ?fx (deployer ?fx) 412346)
            \<and> getTransactionReceipt ?fx
                (t @ [RollupCreation
                        \<lparr>config = createRollupConfig ?fx (deployer ?fx) 412346,
                         batchPosters = bp, validators = vals\<rparr> (deployer ?fx) (Inr result)])
                (transaction_hash result) = Inr txReceipt
            \<and> getCoreContracts ?fx txReceipt = Inr core"
    by (auto simp: fixture_sel fx_text fx_receipt_def fx_logs_def)
  from end_to_end_success [of ?fx fx_init, OF bal pr send create fetch json pcc pnc wf, of fx_chain]
  obtain cc s' h0 h1 h2 result content where
    "deployChain ?fx fx_chain fx_init = (Inr (Some cc), s')" "cc_chainId cc = 412346"
    "keysDrawn s' = keysDrawn fx_init + 3"
    "trace s' = trace fx_init @
        [Transfer (deployer ?fx)
           (privateKeyToAddress ?fx (generatePrivateKey ?fx (keysDrawn fx_init)))
           TEST_TOKENS_AMOUNT (Inr h0),
         Transfer (deployer ?fx)
           (privateKeyToAddress ?fx (generatePrivateKey ?fx (keysDrawn fx_init + 1)))
           TEST_TOKENS_AMOUNT (Inr h1),
         Transfer (deployer ?fx)
           (privateKeyToAddress ?fx (generatePrivateKey ?fx (keysDrawn fx_init + 2)))
           TEST_TOKENS_AMOUNT (Inr h2),
         RollupCreation
           \<lparr>config = createRollupConfig ?fx (deployer ?fx) 412346,
            batchPosters = [privateKeyToAddress ?fx (generatePrivateKey ?fx (keysDrawn fx_init + 2))],
            validators = [privateKeyToAddress ?fx (generatePrivateKey ?fx (keysDrawn fx_init)),
                          privateKeyToAddress ?fx (generatePrivateKey ?fx (keysDrawn fx_init + 1))]\<rparr>
           (deployer ?fx) (Inr result),
         FileWrite ''node-config.json'' content (Inr ())]"
    by blast
  then show ?thesis
    by (intro exI [of _ cc] exI [of _ s']) (simp add: fx_init_def)
qed

section \<open>The operator keys of the node configuration\<close>

text \<open>
  C9. The keys placed into the node configuration are the two environment entries,
  whatever keys the run provisioned. On the concrete world the run provisions the keys
  \<^verbatim>\<open>k0\<close>, \<^verbatim>\<open>k1\<close> (validators) and \<^verbatim>\<open>k2\<close> (batch poster), funds their addresses and
  registers them on the rollup, and the configuration written has the batch-poster key
  \<^verbatim>\<open>envBP\<close> and the validator key \<^verbatim>\<open>envVAL\<close> of the environment.
\<close>

theorem node_config_keys_come_from_environment:
  "batchPosterPrivateKey (nodeConfigParameters env cc core txConfig parentChain)
     = env_BATCH_POSTER_PRIVATE_KEY env
   \<and> validatorPrivateKey (nodeConfigParameters env cc core txConfig parentChain)
     = env_VALIDATOR_PRIVATE_KEY env
   \<and> map privateKey (fst (provisionAccounts (fixture 5000000000000000 (\<lambda>n. False)) roles fx_init))
     = [''k0'', ''k1'', ''k2'']
   \<and> deployChain_accounts (fixture 5000000000000000 (\<lambda>n. False)) fx_chain fx_init =
       (Inr (Some \<lparr>cc_chainId = 412346, cc_InitialChainOwner = ''0xdeployer'',
                   cc_DataAvailabilityCommittee = True\<rparr>),
        \<lparr>trace =
           [Transfer ''0xdeployer'' ''A:k0'' 1000000000000000 (Inr ''0xt''),
            Transfer ''0xdeployer'' ''A:k1'' 1000000000000000 (Inr ''0xt''),
            Transfer ''0xdeployer'' ''A:k2'' 1000000000000000 (Inr ''0xt''),
            RollupCreation fx_params ''0xdeployer'' (Inr \<lparr>transaction_hash = ''0xrollup''\<rparr>),
            FileWrite ''node-config.json'' ''batchPoster=envBP validator=envVAL'' (Inr ())],
         keysDrawn = 3\<rparr>)"
proof -
  let ?fx = "fixture 5000000000000000 (\<lambda>n. False)"
  have pre: "preflight ?fx fx_init = Inr (Some 412346)"
    by (simp add: preflight_def fixture_sel fx_init_def TOKEN_NEEDS_FOR_DEPLOY_def
          BASE_STAKE_def TEST_TOKENS_AMOUNT_def)
  have prov: "provisionAccounts ?fx roles fx_init =
      ([\<lparr>role = Validator, privateKey = ''k0'', address = ''A:k0''\<rparr>,
        \<lparr>role = Validator, privateKey = ''k1'', address = ''A:k1''\<rparr>,
        \<lparr>role = BatchPoster, privateKey = ''k2'', address = ''A:k2''\<rparr>],
       \<lparr>trace = [], keysDrawn = 3\<rparr>)"
    by (simp add: roles_def drawKey_def fixture_sel fx_init_def)
  have par: "\<lparr>config = createRollupConfig ?fx ''0xdeployer'' 412346, batchPosters = [''A:k2''],
              validators = [''A:k0'', ''A:k1'']\<rparr> = fx_params"
    by (simp add: fx_params_def createRollupConfig_def fixture_sel)
  have steps: "deploySteps_accounts ?fx fx_chain 412346 fx_init =
      (Inr \<lparr>res_nodeConfig =
            nodeConfigParameters ?fx
              \<lparr>cc_chainId = 412346, cc_InitialChainOwner = ''0xdeployer'',
               cc_DataAvailabilityCommittee = True\<rparr>
              fx_coreContracts
              (config fx_params) fx_chain,
          res_chainConfig =
            \<lparr>cc_chainId = 412346, cc_InitialChainOwner = ''0xdeployer'',
             cc_DataAvailabilityCommittee = True\<rparr>\<rparr>,
        \<lparr>trace =
           [Transfer ''0xdeployer'' ''A:k0'' 1000000000000000 (Inr ''0xt''),
            Transfer ''0xdeployer'' ''A:k1'' 1000000000000000 (Inr ''0xt''),
            Transfer ''0xdeployer'' ''A:k2'' 1000000000000000 (Inr ''0xt''),
            RollupCreation fx_params ''0xdeployer'' (Inr \<lparr>transaction_hash = ''0xrollup''\<rparr>),
            FileWrite ''node-config.json'' ''batchPoster=envBP validator=envVAL'' (Inr ())],
         keysDrawn = 3\<rparr>)"
    by (simp add: deploySteps_accounts_def prov deployWithAccounts_def sendTestTokens_def
          deployRollupContracts_def writeNodeConfig_def fx_generate fixture_sel par
          nodeConfigParameters_def fx_show_key_def TEST_TOKENS_AMOUNT_def Let_def)
  have run: "deployChain_accounts ?fx fx_chain fx_init =
       (Inr (Some \<lparr>cc_chainId = 412346, cc_InitialChainOwner = ''0xdeployer'',
                   cc_DataAvailabilityCommittee = True\<rparr>),
        \<lparr>trace =
           [Transfer ''0xdeployer'' ''A:k0'' 1000000000000000 (Inr ''0xt''),
            Transfer ''0xdeployer'' ''A:k1'' 1000000000000000 (Inr ''0xt''),
            Transfer ''0xdeployer'' ''A:k2'' 1000000000000000 (Inr ''0xt''),
            RollupCreation fx_params ''0xdeployer'' (Inr \<lparr>transaction_hash = ''0xrollup''\<rparr>),
            FileWrite ''node-config.json'' ''batchPoster=envBP validator=envVAL'' (Inr ())],
         keysDrawn = 3\<rparr>)"
    by (simp add: deployChain_accounts_def pre steps)
  show ?thesis
    by (simp add: run prov nodeConfigParameters_def)
qed

section \<open>Order of the receipt's logs\<close>

lemma mset_map_filter:
  "mset xs = mset ys \<Longrightarrow> mset (List.map_filter f xs) = mset (List.map_filter f ys)"
  by (simp add: map_filter_def)

lemma coreContractEvents_permuted:
  assumes "mset logs' = mset (rcpt_logs r)"
  shows "mset (coreContractEvents decodeLog (r\<lparr>rcpt_logs := logs'\<rparr>))
           = mset (coreContractEvents decodeLog r)"
proof -
  have "mset (List.map_filter decodeLog logs') = mset (List.map_filter decodeLog (rcpt_logs r))"
    by (rule mset_map_filter [OF assms])
  then show ?thesis by (simp add: coreContractEvents_def)
qed

lemma getCoreContracts_spec_permuted:
  assumes perm: "mset logs' = mset (rcpt_logs r)"
      and valid: "validReceipt decodeLog expected r"
  shows "getCoreContracts_spec decodeLog expected (r\<lparr>rcpt_logs := logs'\<rparr>)
           = getCoreContracts_spec decodeLog expected r"
proof -
  let ?f = "coreContractEvents decodeLog r"
  let ?f' = "coreContractEvents decodeLog (r\<lparr>rcpt_logs := logs'\<rparr>)"
  have m: "mset ?f' = mset ?f" by (rule coreContractEvents_permuted [OF perm])
  then have st: "set ?f' = set ?f" by (rule mset_eq_setD)
  from m have "mset (map fst ?f') = mset (map fst ?f)" by simp
  moreover from valid have d: "distinct (map fst ?f)" by (simp add: validReceipt_def Let_def)
  ultimately have d': "distinct (map fst ?f')" by (metis mset_eq_imp_distinct_iff)
  from d d' st have "map_of ?f' = map_of ?f" by (simp add: map_of_inject_set)
  with st show ?thesis by (simp add: getCoreContracts_spec_def Let_def)
qed

lemma getCoreContracts_spec_valid:
  assumes valid: "validReceipt decodeLog expected r"
  shows "getCoreContracts_spec decodeLog expected r = Inr (map_of (coreContractEvents decodeLog r))"
    and "(name, addr) \<in> set (coreContractEvents decodeLog r)
           \<Longrightarrow> map_of (coreContractEvents decodeLog r) name = Some addr"
    and "set expected \<subseteq> dom (map_of (coreContractEvents decodeLog r))"
  using valid
  by (auto simp: getCoreContracts_spec_def validReceipt_def Let_def list_all_iff dom_map_of_conv_image_fst)

text \<open>
  C6. With the receipt decoder as the specification describes it: let \<open>r\<close> be a valid
  receipt and let the receipt fetched carry the logs of \<open>r\<close> in any order. When the
  calldata pass succeeds, \<open>generateNodeConfiguration\<close> hands to \<open>prepareNodeConfig\<close> the
  mapping of role to address extracted from \<open>r\<close> itself, whatever the order of the logs
  fetched, and returns the node configuration prepared from it. That mapping sends every
  deployed role to the address of its event, holds nothing that is not an event of the
  logs fetched, and covers every expected role.
\<close>

theorem core_contracts_order_independent:
  assumes dec: "getCoreContracts env = getCoreContracts_spec decodeLog expected"
      and valid: "validReceipt decodeLog expected r"
      and perm: "mset logs' = mset (rcpt_logs r)"
      and tx: "getTransaction env t h = Inr tx"
      and rcpt: "getTransactionReceipt env t h = Inr (r\<lparr>rcpt_logs := logs'\<rparr>)"
      and inp: "getInputs env tx = Inr (input0 # rest)"
      and js: "JSON_parse env (rc_chainConfig (config input0)) = Inr cc"
  shows "generateNodeConfiguration env h pc t =
           (case prepareNodeConfig env
                   (nodeConfigParameters env cc (map_of (coreContractEvents decodeLog r))
                      (config input0) pc) of
              Inl e \<Rightarrow> Inl e
            | Inr nc \<Rightarrow> Inr \<lparr>res_nodeConfig = nc, res_chainConfig = cc\<rparr>)
     \<and> coreContracts (nodeConfigParameters env cc (map_of (coreContractEvents decodeLog r))
                        (config input0) pc)
         = map_of (coreContractEvents decodeLog r)
     \<and> (\<forall>name addr. (name, addr) \<in> set (coreContractEvents decodeLog r)
           \<longrightarrow> map_of (coreContractEvents decodeLog r) name = Some addr)
     \<and> (\<forall>name addr. map_of (coreContractEvents decodeLog r) name = Some addr
           \<longrightarrow> (\<exists>l \<in> set logs'. decodeLog l = Some (name, addr)))
     \<and> set expected \<subseteq> dom (map_of (coreContractEvents decodeLog r))"
proof -
  let ?m = "map_of (coreContractEvents decodeLog r)"
  have "getCoreContracts env (r\<lparr>rcpt_logs := logs'\<rparr>) = Inr ?m"
    using getCoreContracts_spec_permuted [OF perm valid] getCoreContracts_spec_valid(1) [OF valid]
    by (simp add: dec)
  from generateNodeConfiguration_succeeds [OF tx rcpt inp js this]
  have g: "generateNodeConfiguration env h pc t =
           (case prepareNodeConfig env (nodeConfigParameters env cc ?m (config input0) pc) of
              Inl e \<Rightarrow> Inl e
            | Inr nc \<Rightarrow> Inr \<lparr>res_nodeConfig = nc, res_chainConfig = cc\<rparr>)" .
  have c: "coreContracts (nodeConfigParameters env cc ?m (config input0) pc) = ?m"
    by (simp add: nodeConfigParameters_def)
  have origin: "\<exists>l \<in> set logs'. decodeLog l = Some (name, addr)" if "?m name = Some addr"
    for name addr
  proof -
    from that have "(name, addr) \<in> set (coreContractEvents decodeLog r)"
      by (rule map_of_SomeD)
    then have "(name, addr) \<in> set (coreContractEvents decodeLog (r\<lparr>rcpt_logs := logs'\<rparr>))"
      using coreContractEvents_permuted [OF perm, of decodeLog] by (metis mset_eq_setD)
    then show ?thesis
      by (auto simp: coreContractEvents_def map_filter_def)
  qed
  from g c origin getCoreContracts_spec_valid(2,3) [OF valid] show ?thesis
    by blast
qed

theorem core_contracts_order_independent_witness:
  "(\<exists>res. generateNodeConfiguration
      ((fixture 0 (\<lambda>n. False))
         \<lparr>getCoreContracts := getCoreContracts_spec fx_decodeLog fx_expected,
          getTransactionReceipt := (\<lambda>t' h'. Inr (fx_receipt\<lparr>rcpt_logs := rev fx_logs\<rparr>))\<rparr>)
      ''0xrollup'' fx_chain [] = Inr res
     \<and> coreContracts (res_nodeConfig res) ''rollup'' = Some ''0xR''
     \<and> coreContracts (res_nodeConfig res) ''inbox'' = Some ''0xI'')
   \<and> validReceipt fx_decodeLog fx_expected fx_receipt
   \<and> mset (rev fx_logs) = mset (rcpt_logs fx_receipt)"
proof -
  let ?fx = "(fixture 0 (\<lambda>n. False))
         \<lparr>getCoreContracts := getCoreContracts_spec fx_decodeLog fx_expected,
          getTransactionReceipt := (\<lambda>t' h'. Inr (fx_receipt\<lparr>rcpt_logs := rev fx_logs\<rparr>))\<rparr>"
  let ?tx = "\<lparr>tx_hash = ''0xrollup'', tx_input = ''0xcalldata''\<rparr>"
  let ?cc = "\<lparr>cc_chainId = 412346, cc_InitialChainOwner = ''0xdeployer'',
             cc_DataAvailabilityCommittee = True\<rparr>"
  have dec: "getCoreContracts ?fx = getCoreContracts_spec fx_decodeLog fx_expected"
    by simp
  have perm: "mset (rev fx_logs) = mset (rcpt_logs fx_receipt)"
    by (simp add: fx_receipt_def)
  have tx: "getTransaction ?fx [] ''0xrollup'' = Inr ?tx"
    and rcpt: "getTransactionReceipt ?fx [] ''0xrollup''
                 = Inr (fx_receipt\<lparr>rcpt_logs := rev fx_logs\<rparr>)"
    and inp: "getInputs ?fx ?tx = Inr (fx_params # [])"
    and js: "JSON_parse ?fx (rc_chainConfig (config fx_params)) = Inr ?cc"
    by (simp_all add: fixture_sel fx_text fx_JSON_parse_def)
  note inst = core_contracts_order_independent
                [OF dec fx_valid perm tx rcpt inp js, of fx_chain]
  let ?m = "map_of (coreContractEvents fx_decodeLog fx_receipt)"
  let ?p = "nodeConfigParameters ?fx ?cc ?m (config fx_params) fx_chain"
  have pn: "prepareNodeConfig ?fx ?p = Inr ?p"
    by (simp add: fixture_sel)
  from inst pn
  have g: "generateNodeConfiguration ?fx ''0xrollup'' fx_chain []
             = Inr \<lparr>res_nodeConfig = ?p, res_chainConfig = ?cc\<rparr>"
    by simp
  have mem: "(''rollup'', ''0xR'') \<in> set (coreContractEvents fx_decodeLog fx_receipt)"
    "(''inbox'', ''0xI'') \<in> set (coreContractEvents fx_decodeLog fx_receipt)"
    by (simp_all add: fx_events)
  from inst mem have look: "?m ''rollup'' = Some ''0xR''" "?m ''inbox'' = Some ''0xI''"
    by blast+
  from inst have "coreContracts ?p = ?m" by blast
  with look have "coreContracts ?p ''rollup'' = Some ''0xR''"
    "coreContracts ?p ''inbox'' = Some ''0xI''"
    by simp_all
  with g have "\<exists>res. generateNodeConfiguration ?fx ''0xrollup'' fx_chain [] = Inr res
     \<and> coreContracts (res_nodeConfig res) ''rollup'' = Some ''0xR''
     \<and> coreContracts (res_nodeConfig res) ''inbox'' = Some ''0xI''"
    by simp
  with fx_valid perm show ?thesis by blast
qed

end
